theory Spec2Isabelle
  imports Complex_Main "HOL-Library.Word"
begin

section \<open>Python values and errors\<close>

text \<open>
  The notebook \<^verbatim>\<open>handouts/handout_01.ipynb\<close> defines the integrator \<^verbatim>\<open>rk45\<close>, the
  right-hand side \<^verbatim>\<open>f_catalysis\<close> and the Monte Carlo loop \<^verbatim>\<open>plot_samples\<close>. It is
  Python 2 (\<^verbatim>\<open>xrange\<close>) with NumPy, taken here on a 64-bit Linux on x86-64.

  A Python exception is a value \<open>Inl e\<close>; a call that raises returns nothing else.
\<close>

datatype error = ValueError | IndexError | OtherError

fun bind_err :: "error + 'a \<Rightarrow> ('a \<Rightarrow> error + 'b) \<Rightarrow> error + 'b" where
  "bind_err (Inl e) k = Inl e"
| "bind_err (Inr x) k = k x"

text \<open>\<^verbatim>\<open>xs[i]\<close> for an index \<open>i \<ge> 0\<close>: IndexError out of range.\<close>

definition getitem :: "'a list \<Rightarrow> nat \<Rightarrow> error + 'a" where
  "getitem xs i = (if i < length xs then Inr (xs ! i) else Inl IndexError)"

section \<open>Floats\<close>

text \<open>
  A Python float and a NumPy \<^verbatim>\<open>float64\<close> are IEEE 754 binary64 numbers. A finite one is
  \<open>Fin x\<close> with \<open>x\<close> its value; the two infinities and the NaNs are one value
  \<open>NonFinite\<close>, which every sum, difference and product with a non-finite operand
  returns, and the two zeros are one value \<open>Fin 0\<close>. Every operation rounds the exact
  result to the nearest binary64 number, ties to even: \<open>rnd\<close>.

  \<open>expo x\<close> is the binary exponent of \<open>x \<noteq> 0\<close>, with \<open>2 ^ expo x \<le> \<bar>x\<bar> < 2 ^ (expo x + 1)\<close>;
  it is clamped at \<open>-1022\<close> for the subnormal numbers. The unit in the last place is
  \<open>2 ^ (e - 52)\<close>, and a result that rounds to \<open>2 ^ 1024\<close> or beyond overflows.
\<close>

datatype double = Fin real | NonFinite

function ilog2 :: "int \<Rightarrow> int" where
  "ilog2 n = (if n < 2 then 0 else 1 + ilog2 (n div 2))"
  by pat_completeness auto
termination
  by (relation "measure nat") auto

declare ilog2.simps [simp del]

definition expo :: "real \<Rightarrow> int" where
  "expo x =
     (if 1 \<le> \<bar>x\<bar> then ilog2 \<lfloor>\<bar>x\<bar>\<rfloor>
      else - (1 + ilog2 (\<lceil>1 / \<bar>x\<bar>\<rceil> - 1)))"

definition round_even :: "real \<Rightarrow> int" where
  "round_even y =
     (let n = \<lfloor>y\<rfloor>; d = y - of_int n
      in if d < 1 / 2 then n else if 1 / 2 < d then n + 1 else if even n then n else n + 1)"

definition rnd :: "real \<Rightarrow> double" where
  "rnd x =
     (if x = 0 then Fin 0
      else let e = max (expo x) (- 1022);
               u = 2 powi (e - 52);
               q = round_even (x / u)
           in if 1024 \<le> e \<or> (e = 1023 \<and> \<bar>q\<bar> = 9007199254740992) then NonFinite
              else Fin (of_int q * u))"

fun fadd :: "double \<Rightarrow> double \<Rightarrow> double" where
  "fadd (Fin x) (Fin y) = rnd (x + y)"
| "fadd a b = NonFinite"

fun fsub :: "double \<Rightarrow> double \<Rightarrow> double" where
  "fsub (Fin x) (Fin y) = rnd (x - y)"
| "fsub a b = NonFinite"

fun fmul :: "double \<Rightarrow> double \<Rightarrow> double" where
  "fmul (Fin x) (Fin y) = rnd (x * y)"
| "fmul a b = NonFinite"



section \<open>NumPy vectors\<close>

text \<open>A one-dimensional \<^verbatim>\<open>float64\<close> array is a list of floats.\<close>

type_synonym vec = "double list"

text \<open>\<^verbatim>\<open>c * v\<close> for a scalar \<open>c\<close> and an array \<open>v\<close>.\<close>

definition smul :: "double \<Rightarrow> vec \<Rightarrow> vec" where
  "smul c v = map (fmul c) v"

text \<open>
  \<^verbatim>\<open>u + v\<close> for two one-dimensional arrays, under NumPy's broadcasting: equal lengths add
  componentwise, an array of length one is stretched to the other's length, and any other
  pair of lengths raises ValueError (operands could not be broadcast together).
\<close>

definition np_add :: "vec \<Rightarrow> vec \<Rightarrow> error + vec" where
  "np_add u v =
     (if length u = length v then Inr (map2 fadd u v)
      else if length u = 1 then Inr (map (fadd (hd u)) v)
      else if length v = 1 then Inr (map (\<lambda>x. fadd x (hd v)) u)
      else Inl ValueError)"

text \<open>\<^verbatim>\<open>s + v1 + v2 + ...\<close>, evaluated from the left as Python does.\<close>

fun np_sum :: "vec \<Rightarrow> vec list \<Rightarrow> error + vec" where
  "np_sum s [] = Inr s"
| "np_sum s (v # vs) = bind_err (np_add s v) (\<lambda>s'. np_sum s' vs)"

section \<open>The trajectory array\<close>

text \<open>
  A component of \<open>y0\<close> is a Python float or a Python 2 int, which is a 64-bit machine
  integer (a \<open>long\<close> is not modelled, nor is a scalar \<open>y0\<close>).
  \<^verbatim>\<open>y = np.array( [ y0 ] * n )\<close> builds a fresh two-dimensional array of \<open>n\<close> rows, each a copy
  of \<open>y0\<close>. Its element type comes from \<open>y0\<close>: \<^verbatim>\<open>int64\<close> when every component is an int,
  \<^verbatim>\<open>float64\<close> otherwise, and then an int beside a float is converted to the nearest float.
  An array with no element (\<open>n = 0\<close> or \<open>y0\<close> empty) is a float array. The rows of an
  integer array hold the integers as their exact values.
\<close>

datatype pynum = PyInt "64 word" | PyFloat double

fun exact_val :: "pynum \<Rightarrow> double" where
  "exact_val (PyInt w) = Fin (real_of_int (sint w))"
| "exact_val (PyFloat d) = d"

fun to_float :: "pynum \<Rightarrow> double" where
  "to_float (PyInt w) = rnd (real_of_int (sint w))"
| "to_float (PyFloat d) = d"

fun is_pyint :: "pynum \<Rightarrow> bool" where
  "is_pyint (PyInt w) = True"
| "is_pyint (PyFloat d) = False"

datatype dtype = Int64 | Float64

record ndarray =
  dtype :: dtype
  rows :: "vec list"

definition all_ints :: "pynum list \<Rightarrow> bool" where
  "all_ints y0 = (y0 \<noteq> [] \<and> list_all is_pyint y0)"

definition np_row :: "pynum list \<Rightarrow> vec" where
  "np_row y0 = (if all_ints y0 then map exact_val y0 else map to_float y0)"

definition np_array_rep :: "pynum list \<Rightarrow> nat \<Rightarrow> ndarray" where
  "np_array_rep y0 n =
     \<lparr>dtype = (if n \<noteq> 0 \<and> all_ints y0 then Int64 else Float64),
      rows = replicate n (np_row y0)\<rparr>"

text \<open>
  A row of an integer array that enters a float operation (\<^verbatim>\<open>y[i] + c21 * k1\<close>) is
  converted to floats, each integer to the nearest float.
\<close>

fun to_double :: "double \<Rightarrow> double" where
  "to_double (Fin x) = rnd x"
| "to_double NonFinite = NonFinite"

fun as_float :: "dtype \<Rightarrow> vec \<Rightarrow> vec" where
  "as_float Float64 v = v"
| "as_float Int64 v = map to_double v"

text \<open>
  Storing a float into an integer array is NumPy's unchecked cast, the C conversion of a
  double to a 64-bit integer: the float is truncated toward zero, and when the result
  does not fit (or the float is not finite) the processor stores \<open>-2^63\<close>.
\<close>

definition trunc_zero :: "real \<Rightarrow> int" where
  "trunc_zero x = (if 0 \<le> x then \<lfloor>x\<rfloor> else \<lceil>x\<rceil>)"

fun int64_cast :: "double \<Rightarrow> double" where
  "int64_cast (Fin x) =
     (if - 9223372036854775808 \<le> trunc_zero x \<and> trunc_zero x < 9223372036854775808
      then Fin (real_of_int (trunc_zero x))
      else Fin (- 9223372036854775808))"
| "int64_cast NonFinite = Fin (- 9223372036854775808)"

fun cast_to :: "dtype \<Rightarrow> vec \<Rightarrow> vec" where
  "cast_to Float64 v = v"
| "cast_to Int64 v = map int64_cast v"

text \<open>
  \<^verbatim>\<open>y[j] = v\<close> stores into a row of \<open>n\<close> elements of type \<open>dt\<close>: \<open>v\<close> itself when it
  has \<open>n\<close> elements, its single element repeated when it has one, and ValueError (could
  not broadcast input array) otherwise; then the cast to \<open>dt\<close>.
\<close>

definition broadcast_to :: "nat \<Rightarrow> vec \<Rightarrow> error + vec" where
  "broadcast_to n v =
     (if length v = n then Inr v
      else if length v = 1 then Inr (replicate n (hd v))
      else Inl ValueError)"

definition row_store :: "dtype \<Rightarrow> nat \<Rightarrow> vec \<Rightarrow> error + vec" where
  "row_store dt n v = bind_err (broadcast_to n v) (\<lambda>w. Inr (cast_to dt w))"

definition setitem_row :: "ndarray \<Rightarrow> nat \<Rightarrow> vec \<Rightarrow> error + ndarray" where
  "setitem_row y j v =
     (if j < length (rows y)
      then bind_err (row_store (dtype y) (length (rows y ! j)) v)
             (\<lambda>r. Inr (y\<lparr>rows := (rows y)[j := r]\<rparr>))
      else Inl IndexError)"

section \<open>The integrator \<^verbatim>\<open>rk45\<close>\<close>

subsection \<open>Coefficients: the float of each decimal literal of the source\<close>

definition c20 :: double where "c20 = rnd (2500000000000000 / 10 ^ 16)"
definition c30 :: double where "c30 = rnd (3750000000000000 / 10 ^ 16)"
definition c40 :: double where "c40 = rnd (9230769230769231 / 10 ^ 16)"
definition c50 :: double where "c50 = rnd (1000000000000000 / 10 ^ 15)"
definition c60 :: double where "c60 = rnd (5000000000000000 / 10 ^ 16)"

definition c21 :: double where "c21 = rnd (2500000000000000 / 10 ^ 16)"
definition c31 :: double where "c31 = rnd (9375000000000000 / 10 ^ 17)"
definition c32 :: double where "c32 = rnd (2812500000000000 / 10 ^ 16)"
definition c41 :: double where "c41 = rnd (8793809740555303 / 10 ^ 16)"
definition c42 :: double where "c42 = rnd (- 3277196176604461 / 10 ^ 15)"
definition c43 :: double where "c43 = rnd (3320892125625853 / 10 ^ 15)"
definition c51 :: double where "c51 = rnd (2032407407407407 / 10 ^ 15)"
definition c52 :: double where "c52 = rnd (- 8000000000000000 / 10 ^ 15)"
definition c53 :: double where "c53 = rnd (7173489278752436 / 10 ^ 15)"
definition c54 :: double where "c54 = rnd (- 2058966861598441 / 10 ^ 16)"
definition c61 :: double where "c61 = rnd (- 2962962962962963 / 10 ^ 16)"
definition c62 :: double where "c62 = rnd (2000000000000000 / 10 ^ 15)"
definition c63 :: double where "c63 = rnd (- 1381676413255361 / 10 ^ 15)"
definition c64 :: double where "c64 = rnd (4529727095516569 / 10 ^ 16)"
definition c65 :: double where "c65 = rnd (- 2750000000000000 / 10 ^ 16)"

definition a1 :: double where "a1 = rnd (1157407407407407 / 10 ^ 16)"
definition a2 :: double where "a2 = rnd 0"
definition a3 :: double where "a3 = rnd (5489278752436647 / 10 ^ 16)"
definition a4 :: double where "a4 = rnd (5353313840155945 / 10 ^ 16)"
definition a5 :: double where "a5 = rnd (- 2000000000000000 / 10 ^ 16)"

definition b1 :: double where "b1 = rnd (1185185185185185 / 10 ^ 16)"
definition b2 :: double where "b2 = rnd 0"
definition b3 :: double where "b3 = rnd (5189863547758284 / 10 ^ 16)"
definition b4 :: double where "b4 = rnd (5061314903420167 / 10 ^ 16)"
definition b5 :: double where "b5 = rnd (- 1800000000000000 / 10 ^ 16)"
definition b6 :: double where "b6 = rnd (3636363636363636 / 10 ^ 17)"

subsection \<open>One step\<close>

text \<open>
  The right-hand side \<open>f\<close> is a pure function of the state, the time and the extra
  arguments \<open>args\<close>; it returns a one-dimensional float array or raises. The grid \<open>t\<close>
  is a sequence of floats.
  \<^verbatim>\<open>k = h * f( s, tt, *args )\<close> evaluates the state argument \<open>s\<close> (a sum that may fail to
  broadcast), calls \<open>f\<close> and scales the result.
  The first stage hands \<open>f\<close> the row \<^verbatim>\<open>y[i]\<close> itself, \<open>r\<close>; the later stages hand it
  a sum of the row as the float operations read it, \<open>yi\<close>, and the scaled earlier stages.
\<close>

type_synonym 'p rhs = "vec \<Rightarrow> double \<Rightarrow> 'p \<Rightarrow> error + vec"

definition stage :: "'p rhs \<Rightarrow> double \<Rightarrow> error + vec \<Rightarrow> double \<Rightarrow> 'p \<Rightarrow> error + vec" where
  "stage f h s tt args =
     bind_err s (\<lambda>x. bind_err (f x tt args) (\<lambda>v. Inr (smul h v)))"

definition rk45_stages ::
  "'p rhs \<Rightarrow> vec \<Rightarrow> vec \<Rightarrow> double \<Rightarrow> double \<Rightarrow> 'p \<Rightarrow>
     error + (vec \<times> vec \<times> vec \<times> vec \<times> vec \<times> vec)" where
  "rk45_stages f r yi ti h args =
     bind_err (stage f h (Inr r) ti args) (\<lambda>k1.
     bind_err (stage f h (np_sum yi [smul c21 k1]) (fadd ti (fmul c20 h)) args) (\<lambda>k2.
     bind_err (stage f h (np_sum yi [smul c31 k1, smul c32 k2]) (fadd ti (fmul c30 h)) args)
       (\<lambda>k3.
     bind_err (stage f h (np_sum yi [smul c41 k1, smul c42 k2, smul c43 k3])
                 (fadd ti (fmul c40 h)) args) (\<lambda>k4.
     bind_err (stage f h (np_sum yi [smul c51 k1, smul c52 k2, smul c53 k3, smul c54 k4])
                 (fadd ti h) args) (\<lambda>k5.
     bind_err (stage f h
                 (np_sum yi [smul c61 k1, smul c62 k2, smul c63 k3, smul c64 k4, smul c65 k5])
                 (fadd ti (fmul c60 h)) args) (\<lambda>k6.
     Inr (k1, k2, k3, k4, k5, k6)))))))"

text \<open>The two combinations of the stages: the one stored, and \<^verbatim>\<open>y5\<close>.\<close>

definition order4 :: "vec \<Rightarrow> vec \<times> vec \<times> vec \<times> vec \<times> vec \<times> vec \<Rightarrow> error + vec" where
  "order4 yi ks =
     (case ks of (k1, k2, k3, k4, k5, k6) \<Rightarrow>
        np_sum yi [smul a1 k1, smul a3 k3, smul a4 k4, smul a5 k5])"

definition order5 :: "vec \<Rightarrow> vec \<times> vec \<times> vec \<times> vec \<times> vec \<times> vec \<Rightarrow> error + vec" where
  "order5 yi ks =
     (case ks of (k1, k2, k3, k4, k5, k6) \<Rightarrow>
        np_sum yi [smul b1 k1, smul b3 k3, smul b4 k4, smul b5 k5, smul b6 k6])"

text \<open>
  The value a step assigns to \<^verbatim>\<open>y[i+1]\<close>, before it is stored, from the row \<open>r\<close> of an
  array of element type \<open>dt\<close>.
\<close>

definition step_value ::
  "'p rhs \<Rightarrow> dtype \<Rightarrow> vec \<Rightarrow> double \<Rightarrow> double \<Rightarrow> 'p \<Rightarrow> error + vec" where
  "step_value f dt r ti h args =
     (let yi = as_float dt r in bind_err (rk45_stages f r yi ti h args) (order4 yi))"

text \<open>
  The body of the loop at index \<open>i\<close>: the step \<open>h\<close>, the six stages, the assignment
  \<^verbatim>\<open>y[i+1] = ...\<close>, then \<^verbatim>\<open>y5\<close>, whose value is dropped (an exception while computing it
  is not). \<open>yi\<close> is the row \<^verbatim>\<open>y[i]\<close> as the float operations read it.
\<close>

definition rk45_body :: "'p rhs \<Rightarrow> double list \<Rightarrow> 'p \<Rightarrow> nat \<Rightarrow> ndarray \<Rightarrow> error + ndarray" where
  "rk45_body f t args i y =
     bind_err (getitem t (i + 1)) (\<lambda>t1.
     bind_err (getitem t i) (\<lambda>t0.
     bind_err (getitem (rows y) i) (\<lambda>r.
     let yi = as_float (dtype y) r in
     bind_err (rk45_stages f r yi t0 (fsub t1 t0) args) (\<lambda>ks.
     bind_err (order4 yi ks) (\<lambda>y4.
     bind_err (setitem_row y (i + 1) y4) (\<lambda>y'.
     bind_err (order5 yi ks) (\<lambda>y5.
     Inr y')))))))"

text \<open>
  \<^verbatim>\<open>for i in xrange( n - 1 )\<close>: \<open>r\<close> iterations are left, the next one at index \<open>i\<close>.
  An exception in an iteration ends the call.
\<close>

fun rk45_loop :: "'p rhs \<Rightarrow> double list \<Rightarrow> 'p \<Rightarrow> nat \<Rightarrow> nat \<Rightarrow> ndarray \<Rightarrow> error + ndarray" where
  "rk45_loop f t args i 0 y = Inr y"
| "rk45_loop f t args i (Suc r) y =
     bind_err (rk45_body f t args i y) (rk45_loop f t args (Suc i) r)"

text \<open>
  \<open>xrange(n - 1)\<close> is empty for \<open>n = 0\<close> as for \<open>n = 1\<close>, which is what the truncating
  subtraction on \<open>nat\<close> gives.
\<close>

definition rk45 :: "'p rhs \<Rightarrow> pynum list \<Rightarrow> double list \<Rightarrow> 'p \<Rightarrow> error + ndarray" where
  "rk45 f y0 t args =
     (let n = length t; y = np_array_rep y0 n in rk45_loop f t args 0 (n - 1) y)"

text \<open>The row \<^verbatim>\<open>y[0]\<close> as the float operations of the first iteration read it.\<close>

definition first_row :: "pynum list \<Rightarrow> double list \<Rightarrow> vec" where
  "first_row y0 t = as_float (dtype (np_array_rep y0 (length t))) (np_row y0)"

subsection \<open>The integrator without the fifth-order combination\<close>

text \<open>
  The variant the specification compares with: the same loop with the line
  \<^verbatim>\<open>y5 = ...\<close> removed and nothing else changed.
\<close>

definition rk45_body_no_y5 ::
  "'p rhs \<Rightarrow> double list \<Rightarrow> 'p \<Rightarrow> nat \<Rightarrow> ndarray \<Rightarrow> error + ndarray" where
  "rk45_body_no_y5 f t args i y =
     bind_err (getitem t (i + 1)) (\<lambda>t1.
     bind_err (getitem t i) (\<lambda>t0.
     bind_err (getitem (rows y) i) (\<lambda>r.
     let yi = as_float (dtype y) r in
     bind_err (rk45_stages f r yi t0 (fsub t1 t0) args) (\<lambda>ks.
     bind_err (order4 yi ks) (\<lambda>y4.
     setitem_row y (i + 1) y4)))))"

fun rk45_loop_no_y5 ::
  "'p rhs \<Rightarrow> double list \<Rightarrow> 'p \<Rightarrow> nat \<Rightarrow> nat \<Rightarrow> ndarray \<Rightarrow> error + ndarray" where
  "rk45_loop_no_y5 f t args i 0 y = Inr y"
| "rk45_loop_no_y5 f t args i (Suc r) y =
     bind_err (rk45_body_no_y5 f t args i y) (rk45_loop_no_y5 f t args (Suc i) r)"

definition rk45_no_y5 :: "'p rhs \<Rightarrow> pynum list \<Rightarrow> double list \<Rightarrow> 'p \<Rightarrow> error + ndarray" where
  "rk45_no_y5 f y0 t args =
     (let n = length t; y = np_array_rep y0 n in rk45_loop_no_y5 f t args 0 (n - 1) y)"

subsection \<open>The fourth-order estimate, as the specification words it\<close>

text \<open>
  The specification's step: stage evaluations at the state/time combinations of the
  tableau, of which the fourth-order estimate combines the first, third, fourth and fifth
  (the second has weight zero). Here the right-hand side \<open>g\<close> is a total function on
  vectors of one length and the sums are plain componentwise sums of floats.
\<close>

definition vadd :: "vec \<Rightarrow> vec \<Rightarrow> vec" where
  "vadd u v = map2 fadd u v"

definition rkf4_estimate :: "(vec \<Rightarrow> double \<Rightarrow> vec) \<Rightarrow> vec \<Rightarrow> double \<Rightarrow> double \<Rightarrow> vec" where
  "rkf4_estimate g y t h =
     (let k1 = smul h (g y t);
          k2 = smul h (g (vadd y (smul c21 k1)) (fadd t (fmul c20 h)));
          k3 = smul h (g (vadd (vadd y (smul c31 k1)) (smul c32 k2)) (fadd t (fmul c30 h)));
          k4 = smul h (g (vadd (vadd (vadd y (smul c41 k1)) (smul c42 k2)) (smul c43 k3))
                         (fadd t (fmul c40 h)));
          k5 = smul h (g (vadd (vadd (vadd (vadd y (smul c51 k1)) (smul c52 k2))
                                     (smul c53 k3))
                               (smul c54 k4))
                         (fadd t h))
      in vadd (vadd (vadd (vadd y (smul a1 k1)) (smul a3 k3)) (smul a4 k4)) (smul a5 k5))"

section \<open>The right-hand side \<^verbatim>\<open>f_catalysis\<close>\<close>


section \<open>The Monte Carlo loop \<^verbatim>\<open>plot_samples\<close>\<close>








section \<open>Properties of the integrator\<close>

subsection \<open>Results of a call that returns\<close>

lemma bind_err_Inr_iff: "bind_err m k = Inr y \<longleftrightarrow> (\<exists>x. m = Inr x \<and> k x = Inr y)"
  by (cases m) auto

lemma bind_err_Inl_iff:
  "bind_err m k = Inl e \<longleftrightarrow> m = Inl e \<or> (\<exists>x. m = Inr x \<and> k x = Inl e)"
  by (cases m) auto

lemma length_smul [simp]: "length (smul c v) = length v"
  by (simp add: smul_def)

lemma length_vadd [simp]: "length (vadd u v) = min (length u) (length v)"
  by (simp add: vadd_def)

lemma np_add_same: "length u = length v \<Longrightarrow> np_add u v = Inr (vadd u v)"
  by (simp add: np_add_def vadd_def)

lemma np_sum_same:
  "length s = n \<Longrightarrow> \<forall>v\<in>set vs. length v = n \<Longrightarrow>
   np_sum s vs = Inr (foldl vadd s vs) \<and> length (foldl vadd s vs) = n"
  by (induction vs arbitrary: s) (simp_all add: np_add_same)

lemma stage_Inr_iff:
  "stage f h s tt args = Inr k \<longleftrightarrow> (\<exists>x v. s = Inr x \<and> f x tt args = Inr v \<and> k = smul h v)"
  by (auto simp: stage_def bind_err_Inr_iff)

lemma length_cast_to [simp]: "length (cast_to dt v) = length v"
  by (cases dt) simp_all

lemma length_as_float [simp]: "length (as_float dt v) = length v"
  by (cases dt) simp_all

lemma length_np_row [simp]: "length (np_row y0) = length y0"
  by (simp add: np_row_def)

lemma broadcast_to_length: "broadcast_to n v = Inr w \<Longrightarrow> length w = n"
  by (auto simp: broadcast_to_def split: if_splits)

lemma row_store_length: "row_store dt n v = Inr r \<Longrightarrow> length r = n"
  by (auto simp: row_store_def bind_err_Inr_iff dest: broadcast_to_length)

lemma rk45_body_Inr:
  assumes "rk45_body f t args i y = Inr y'"
  shows "i + 1 < length t \<and> i + 1 < length (rows y) \<and>
     (\<exists>y4 r. step_value f (dtype y) (rows y ! i) (t ! i) (fsub (t ! (i + 1)) (t ! i)) args = Inr y4 \<and>
        row_store (dtype y) (length (rows y ! (i + 1))) y4 = Inr r \<and>
        y' = y\<lparr>rows := (rows y)[i + 1 := r]\<rparr>)"
  using assms
  by (auto simp: rk45_body_def step_value_def bind_err_Inr_iff getitem_def setitem_row_def
      Let_def split: if_splits)

lemma rk45_loop_Inr:
  "rk45_loop f t args i r y = Inr Y \<Longrightarrow>
   dtype Y = dtype y \<and> length (rows Y) = length (rows y) \<and>
   (\<forall>j\<le>i. rows Y ! j = rows y ! j) \<and>
   (\<forall>j. i \<le> j \<and> j < i + r \<longrightarrow>
      (\<exists>y4. step_value f (dtype Y) (rows Y ! j) (t ! j) (fsub (t ! (j + 1)) (t ! j)) args = Inr y4 \<and>
         row_store (dtype y) (length (rows y ! (j + 1))) y4 = Inr (rows Y ! (j + 1))))"
proof (induction r arbitrary: i y)
  case 0
  then show ?case by auto
next
  case (Suc r)
  from Suc.prems obtain y1 where b: "rk45_body f t args i y = Inr y1"
    and l: "rk45_loop f t args (Suc i) r y1 = Inr Y"
    by (auto simp: bind_err_Inr_iff)
  from rk45_body_Inr [OF b] obtain y4 rr where
    i1: "i + 1 < length (rows y)" and
    sv: "step_value f (dtype y) (rows y ! i) (t ! i) (fsub (t ! (i + 1)) (t ! i)) args = Inr y4" and
    rs: "row_store (dtype y) (length (rows y ! (i + 1))) y4 = Inr rr" and
    y1: "y1 = y\<lparr>rows := (rows y)[i + 1 := rr]\<rparr>"
    by blast
  note IH = Suc.IH [OF l]
  have d: "dtype Y = dtype y" and len: "length (rows Y) = length (rows y)"
    using IH y1 by simp_all
  have low: "\<And>j. j \<le> Suc i \<Longrightarrow> rows Y ! j = rows y1 ! j"
    using IH by blast
  have keep: "\<forall>j\<le>i. rows Y ! j = rows y ! j"
    using low y1 by simp
  have new: "rows Y ! (i + 1) = rr"
    using low [of "Suc i"] y1 i1 by simp
  have steps: "\<exists>y4. step_value f (dtype Y) (rows Y ! j) (t ! j) (fsub (t ! (j + 1)) (t ! j)) args = Inr y4 \<and>
         row_store (dtype y) (length (rows y ! (j + 1))) y4 = Inr (rows Y ! (j + 1))"
    if j: "i \<le> j" "j < i + Suc r" for j
  proof (cases "j = i")
    case True
    then show ?thesis using sv rs new keep d by auto
  next
    case False
    with j have "Suc i \<le> j \<and> j < Suc i + r" by simp
    with IH obtain z where
      "step_value f (dtype Y) (rows Y ! j) (t ! j) (fsub (t ! (j + 1)) (t ! j)) args = Inr z"
      "row_store (dtype y1) (length (rows y1 ! (j + 1))) z = Inr (rows Y ! (j + 1))"
      by blast
    moreover have "rows y1 ! (j + 1) = rows y ! (j + 1)" using y1 False j by simp
    moreover have "dtype y1 = dtype y" using y1 by simp
    ultimately show ?thesis using d by auto
  qed
  from d len keep steps show ?case by blast
qed

lemma rk45_Inr:
  assumes "rk45 f y0 t args = Inr Y"
  shows "dtype Y = dtype (np_array_rep y0 (length t)) \<and> length (rows Y) = length t \<and>
    (t \<noteq> [] \<longrightarrow> rows Y ! 0 = np_row y0) \<and>
    (\<forall>j. j + 1 < length t \<longrightarrow>
      (\<exists>y4. step_value f (dtype Y) (rows Y ! j) (t ! j) (fsub (t ! (j + 1)) (t ! j)) args = Inr y4 \<and>
         row_store (dtype (np_array_rep y0 (length t))) (length y0) y4 = Inr (rows Y ! (j + 1))))"
proof -
  let ?y = "np_array_rep y0 (length t)"
  from assms have l: "rk45_loop f t args 0 (length t - 1) ?y = Inr Y"
    by (simp add: rk45_def Let_def)
  note R = rk45_loop_Inr [OF l]
  have rows: "rows ?y = replicate (length t) (np_row y0)"
    by (simp add: np_array_rep_def)
  have "rows Y ! 0 = np_row y0" if "t \<noteq> []"
    using R rows that by simp
  moreover have "\<exists>y4. step_value f (dtype Y) (rows Y ! j) (t ! j) (fsub (t ! (j + 1)) (t ! j)) args = Inr y4 \<and>
         row_store (dtype ?y) (length y0) y4 = Inr (rows Y ! (j + 1))" if "j + 1 < length t" for j
  proof -
    from that have "0 \<le> j \<and> j < 0 + (length t - 1)" by simp
    with R obtain z where "step_value f (dtype Y) (rows Y ! j) (t ! j) (fsub (t ! (j + 1)) (t ! j)) args = Inr z"
      "row_store (dtype ?y) (length (rows ?y ! (j + 1))) z = Inr (rows Y ! (j + 1))" by blast
    then show ?thesis using rows that by auto
  qed
  ultimately show ?thesis using R rows by auto
qed

subsection \<open>A right-hand side that keeps the length of the state\<close>

lemma np_sum1:
  "length s = n \<Longrightarrow> length a = n \<Longrightarrow> np_sum s [a] = Inr (vadd s a)"
  by (simp add: np_add_same)

lemma stage_ok:
  assumes H: "\<forall>y tt. length y = n \<longrightarrow> f y tt args = Inr (g y tt) \<and> length (g y tt) = n"
    and s: "s = Inr x" and x: "length x = n"
  shows "stage f h s tt args = Inr (smul h (g x tt))"
  using H x s by (simp add: stage_def)

lemma well_shaped_step:
  assumes H: "\<forall>y tt. length y = n \<longrightarrow> f y tt args = Inr (g y tt) \<and> length (g y tt) = n"
    and r: "length r = n" and yi: "length yi = n"
  shows "\<exists>ks y4 y5. rk45_stages f r yi ti h args = Inr ks \<and> order4 yi ks = Inr y4 \<and>
           length y4 = n \<and> order5 yi ks = Inr y5 \<and>
           (r = yi \<longrightarrow> y4 = rkf4_estimate g yi ti h)"
proof -
  have G: "\<And>y tt. length y = n \<Longrightarrow> length (g y tt) = n" using H by blast
  define k1 where "k1 = smul h (g r ti)"
  have l1: "length k1 = n" by (simp add: k1_def G r)
  have s1: "stage f h (Inr r) ti args = Inr k1"
    unfolding k1_def by (rule stage_ok [where f=f and g=g and args=args, OF H refl r])
  define x2 where "x2 = vadd yi (smul c21 k1)"
  have lx2: "length x2 = n" by (simp add: x2_def yi l1)
  have n2: "np_sum yi [smul c21 k1] = Inr x2"
    using np_sum_same [of yi n "[smul c21 k1]"] yi l1 by (simp add: x2_def)
  define k2 where "k2 = smul h (g x2 (fadd ti (fmul c20 h)))"
  have l2: "length k2 = n" by (simp add: k2_def G lx2)
  have s2: "stage f h (np_sum yi [smul c21 k1]) (fadd ti (fmul c20 h)) args = Inr k2"
    unfolding k2_def by (rule stage_ok [where f=f and g=g and args=args, OF H n2 lx2])
  define x3 where "x3 = vadd (vadd yi (smul c31 k1)) (smul c32 k2)"
  have lx3: "length x3 = n" by (simp add: x3_def yi l1 l2)
  have n3: "np_sum yi [smul c31 k1, smul c32 k2] = Inr x3"
    using np_sum_same [of yi n "[smul c31 k1, smul c32 k2]"] yi l1 l2 by (simp add: x3_def)
  define k3 where "k3 = smul h (g x3 (fadd ti (fmul c30 h)))"
  have l3: "length k3 = n" by (simp add: k3_def G lx3)
  have s3: "stage f h (np_sum yi [smul c31 k1, smul c32 k2]) (fadd ti (fmul c30 h)) args = Inr k3"
    unfolding k3_def by (rule stage_ok [where f=f and g=g and args=args, OF H n3 lx3])
  define x4 where "x4 = vadd (vadd (vadd yi (smul c41 k1)) (smul c42 k2)) (smul c43 k3)"
  have lx4: "length x4 = n" by (simp add: x4_def yi l1 l2 l3)
  have n4: "np_sum yi [smul c41 k1, smul c42 k2, smul c43 k3] = Inr x4"
    using np_sum_same [of yi n "[smul c41 k1, smul c42 k2, smul c43 k3]"] yi l1 l2 l3
    by (simp add: x4_def)
  define k4 where "k4 = smul h (g x4 (fadd ti (fmul c40 h)))"
  have l4: "length k4 = n" by (simp add: k4_def G lx4)
  have s4: "stage f h (np_sum yi [smul c41 k1, smul c42 k2, smul c43 k3]) (fadd ti (fmul c40 h)) args
              = Inr k4"
    unfolding k4_def by (rule stage_ok [where f=f and g=g and args=args, OF H n4 lx4])
  define x5 where
    "x5 = vadd (vadd (vadd (vadd yi (smul c51 k1)) (smul c52 k2)) (smul c53 k3)) (smul c54 k4)"
  have lx5: "length x5 = n" by (simp add: x5_def yi l1 l2 l3 l4)
  have n5: "np_sum yi [smul c51 k1, smul c52 k2, smul c53 k3, smul c54 k4] = Inr x5"
    using np_sum_same [of yi n "[smul c51 k1, smul c52 k2, smul c53 k3, smul c54 k4]"]
      yi l1 l2 l3 l4
    by (simp add: x5_def)
  define k5 where "k5 = smul h (g x5 (fadd ti h))"
  have l5: "length k5 = n" by (simp add: k5_def G lx5)
  have s5: "stage f h (np_sum yi [smul c51 k1, smul c52 k2, smul c53 k3, smul c54 k4])
              (fadd ti h) args = Inr k5"
    unfolding k5_def by (rule stage_ok [where f=f and g=g and args=args, OF H n5 lx5])
  define x6 where
    "x6 = vadd (vadd (vadd (vadd (vadd yi (smul c61 k1)) (smul c62 k2)) (smul c63 k3))
                 (smul c64 k4)) (smul c65 k5)"
  have lx6: "length x6 = n" by (simp add: x6_def yi l1 l2 l3 l4 l5)
  have n6: "np_sum yi [smul c61 k1, smul c62 k2, smul c63 k3, smul c64 k4, smul c65 k5] = Inr x6"
    using np_sum_same
      [of yi n "[smul c61 k1, smul c62 k2, smul c63 k3, smul c64 k4, smul c65 k5]"]
      yi l1 l2 l3 l4 l5
    by (simp add: x6_def)
  define k6 where "k6 = smul h (g x6 (fadd ti (fmul c60 h)))"
  have l6: "length k6 = n" by (simp add: k6_def G lx6)
  have s6: "stage f h
              (np_sum yi [smul c61 k1, smul c62 k2, smul c63 k3, smul c64 k4, smul c65 k5])
              (fadd ti (fmul c60 h)) args = Inr k6"
    unfolding k6_def by (rule stage_ok [where f=f and g=g and args=args, OF H n6 lx6])
  have st: "rk45_stages f r yi ti h args = Inr (k1, k2, k3, k4, k5, k6)"
    by (simp only: rk45_stages_def s1 s2 s3 s4 s5 s6 bind_err.simps)
  define y4 where
    "y4 = vadd (vadd (vadd (vadd yi (smul a1 k1)) (smul a3 k3)) (smul a4 k4)) (smul a5 k5)"
  have ly4: "length y4 = n" by (simp add: y4_def yi l1 l3 l4 l5)
  have o4: "order4 yi (k1, k2, k3, k4, k5, k6) = Inr y4"
    using np_sum_same [of yi n "[smul a1 k1, smul a3 k3, smul a4 k4, smul a5 k5]"]
      yi l1 l3 l4 l5
    by (simp add: order4_def y4_def)
  have o5: "\<exists>y5. order5 yi (k1, k2, k3, k4, k5, k6) = Inr y5"
    using np_sum_same [of yi n "[smul b1 k1, smul b3 k3, smul b4 k4, smul b5 k5, smul b6 k6]"]
      yi l1 l3 l4 l5 l6
    by (simp add: order5_def)
  have eq: "y4 = rkf4_estimate g yi ti h" if "r = yi"
    using that
    by (simp add: rkf4_estimate_def Let_def y4_def k5_def x5_def k4_def
        x4_def k3_def x3_def k2_def x2_def k1_def)
  from o5 obtain y5 where "order5 yi (k1, k2, k3, k4, k5, k6) = Inr y5" by blast
  with st o4 ly4 eq show ?thesis by blast
qed

lemma bind_err_return [simp]: "bind_err m Inr = m"
  by (cases m) simp_all

lemma bind_err_cong:
  "(\<And>x. m = Inr x \<Longrightarrow> k x = k' x) \<Longrightarrow> bind_err m k = bind_err m k'"
  by (cases m) simp_all

lemma well_shaped_body:
  assumes H: "\<forall>y tt. length y = n \<longrightarrow> f y tt args = Inr (g y tt) \<and> length (g y tt) = n"
    and t: "i + 1 < length t" and y: "i + 1 < length (rows y)"
    and li: "length (rows y ! i) = n" and li1: "length (rows y ! (i + 1)) = n"
  shows "\<exists>y4. step_value f (dtype y) (rows y ! i) (t ! i) (fsub (t ! (i + 1)) (t ! i)) args
             = Inr y4 \<and>
           length y4 = n \<and>
           rk45_body f t args i y =
             Inr (y\<lparr>rows := (rows y)[i + 1 := cast_to (dtype y) y4]\<rparr>)"
proof -
  let ?h = "fsub (t ! (i + 1)) (t ! i)"
  let ?yi = "as_float (dtype y) (rows y ! i)"
  have lyi: "length ?yi = n" using li by simp
  from well_shaped_step [where f=f and g=g and args=args, OF H li lyi, of "t ! i" ?h]
  obtain ks y4 y5 where st: "rk45_stages f (rows y ! i) ?yi (t ! i) ?h args = Inr ks"
    and o4: "order4 ?yi ks = Inr y4" and le: "length y4 = n"
    and o5: "order5 ?yi ks = Inr y5"
    by blast
  have sv: "step_value f (dtype y) (rows y ! i) (t ! i) ?h args = Inr y4"
    using st o4 by (simp add: step_value_def)
  have rs: "row_store (dtype y) n y4 = Inr (cast_to (dtype y) y4)"
    using le by (simp add: row_store_def broadcast_to_def)
  have "rk45_body f t args i y = Inr (y\<lparr>rows := (rows y)[i + 1 := cast_to (dtype y) y4]\<rparr>)"
    using t y st o4 o5 rs li1 by (simp add: rk45_body_def getitem_def setitem_row_def Let_def)
  with sv le show ?thesis by blast
qed

lemma well_shaped_loop:
  assumes H: "\<forall>y tt. length y = n \<longrightarrow> f y tt args = Inr (g y tt) \<and> length (g y tt) = n"
  shows "i + r < length t \<or> r = 0 \<Longrightarrow> i + r < length (rows y) \<or> r = 0 \<Longrightarrow>
    \<forall>v\<in>set (rows y). length v = n \<Longrightarrow> \<exists>Y. rk45_loop f t args i r y = Inr Y"
proof (induction r arbitrary: i y)
  case 0
  then show ?case by simp
next
  case (Suc r)
  from Suc.prems have t: "i + 1 < length t" and y: "i + 1 < length (rows y)" by simp_all
  from Suc.prems y have li: "length (rows y ! i) = n" and li1: "length (rows y ! (i + 1)) = n"
    by simp_all
  from well_shaped_body [where f=f and g=g and args=args, OF H t y li li1]
  obtain y4 where le: "length y4 = n"
    and b: "rk45_body f t args i y = Inr (y\<lparr>rows := (rows y)[i + 1 := cast_to (dtype y) y4]\<rparr>)"
    by blast
  let ?y1 = "y\<lparr>rows := (rows y)[i + 1 := cast_to (dtype y) y4]\<rparr>"
  have inv: "\<forall>v\<in>set (rows ?y1). length v = n"
    using Suc.prems(3) le by (auto dest!: set_update_subset_insert [THEN subsetD])
  have "\<exists>Y. rk45_loop f t args (Suc i) r ?y1 = Inr Y"
    using Suc.prems by (intro Suc.IH inv) auto
  then show ?case by (simp add: b)
qed

lemma rk45_stages_Inr:
  assumes "rk45_stages f r yi ti h args = Inr (k1, k2, k3, k4, k5, k6)"
  shows "stage f h (Inr r) ti args = Inr k1"
    "stage f h (np_sum yi [smul c21 k1]) (fadd ti (fmul c20 h)) args = Inr k2"
    "stage f h (np_sum yi [smul c31 k1, smul c32 k2]) (fadd ti (fmul c30 h)) args = Inr k3"
    "stage f h (np_sum yi [smul c41 k1, smul c42 k2, smul c43 k3]) (fadd ti (fmul c40 h)) args = Inr k4"
    "stage f h (np_sum yi [smul c51 k1, smul c52 k2, smul c53 k3, smul c54 k4]) (fadd ti h) args
       = Inr k5"
    "stage f h (np_sum yi [smul c61 k1, smul c62 k2, smul c63 k3, smul c64 k4, smul c65 k5])
       (fadd ti (fmul c60 h)) args = Inr k6"
proof -
  from assms obtain q1 q2 q3 q4 q5 q6 where
    "stage f h (Inr r) ti args = Inr q1"
    "stage f h (np_sum yi [smul c21 q1]) (fadd ti (fmul c20 h)) args = Inr q2"
    "stage f h (np_sum yi [smul c31 q1, smul c32 q2]) (fadd ti (fmul c30 h)) args = Inr q3"
    "stage f h (np_sum yi [smul c41 q1, smul c42 q2, smul c43 q3]) (fadd ti (fmul c40 h)) args = Inr q4"
    "stage f h (np_sum yi [smul c51 q1, smul c52 q2, smul c53 q3, smul c54 q4]) (fadd ti h) args
       = Inr q5"
    "stage f h (np_sum yi [smul c61 q1, smul c62 q2, smul c63 q3, smul c64 q4, smul c65 q5])
       (fadd ti (fmul c60 h)) args = Inr q6"
    "(q1, q2, q3, q4, q5, q6) = (k1, k2, k3, k4, k5, k6)"
    unfolding rk45_stages_def bind_err_Inr_iff sum.inject by blast
  then show "stage f h (Inr r) ti args = Inr k1"
    "stage f h (np_sum yi [smul c21 k1]) (fadd ti (fmul c20 h)) args = Inr k2"
    "stage f h (np_sum yi [smul c31 k1, smul c32 k2]) (fadd ti (fmul c30 h)) args = Inr k3"
    "stage f h (np_sum yi [smul c41 k1, smul c42 k2, smul c43 k3]) (fadd ti (fmul c40 h)) args = Inr k4"
    "stage f h (np_sum yi [smul c51 k1, smul c52 k2, smul c53 k3, smul c54 k4]) (fadd ti h) args
       = Inr k5"
    "stage f h (np_sum yi [smul c61 k1, smul c62 k2, smul c63 k3, smul c64 k4, smul c65 k5])
       (fadd ti (fmul c60 h)) args = Inr k6"
    by simp_all
qed

lemma stage_length:
  assumes P: "\<forall>y tt v. length y = n \<longrightarrow> f y tt args = Inr v \<longrightarrow> length v = n"
    and st: "stage f h (np_sum s vs) tt args = Inr k"
    and s: "length s = n" and vs: "\<forall>v\<in>set vs. length v = n"
  shows "length k = n"
proof -
  from st obtain x v where x: "np_sum s vs = Inr x" and v: "f x tt args = Inr v"
    and k: "k = smul h v"
    unfolding stage_Inr_iff by blast
  from np_sum_same [OF s vs] x have "length x = n" by simp
  with P v have "length v = n" by blast
  with k show ?thesis by simp
qed

lemma stages_lengths:
  assumes P: "\<forall>y tt v. length y = n \<longrightarrow> f y tt args = Inr v \<longrightarrow> length v = n"
    and r: "length r = n" and yi: "length yi = n"
    and st: "rk45_stages f r yi ti h args = Inr (k1, k2, k3, k4, k5, k6)"
  shows "length k1 = n \<and> length k2 = n \<and> length k3 = n \<and> length k4 = n \<and> length k5 = n \<and>
    length k6 = n"
proof -
  note S = rk45_stages_Inr [OF st]
  have l1: "length k1 = n"
    using stage_length [where f=f and args=args and vs="[]", OF P _ r] S(1) by simp
  have l2: "length k2 = n"
    using stage_length [where f=f and args=args, OF P S(2) yi] l1 by simp
  have l3: "length k3 = n"
    using stage_length [where f=f and args=args, OF P S(3) yi] l1 l2 by simp
  have l4: "length k4 = n"
    using stage_length [where f=f and args=args, OF P S(4) yi] l1 l2 l3 by simp
  have l5: "length k5 = n"
    using stage_length [where f=f and args=args, OF P S(5) yi] l1 l2 l3 l4 by simp
  have l6: "length k6 = n"
    using stage_length [where f=f and args=args, OF P S(6) yi] l1 l2 l3 l4 l5 by simp
  from l1 l2 l3 l4 l5 l6 show ?thesis by simp
qed

lemma order5_defined:
  assumes P: "\<forall>y tt v. length y = n \<longrightarrow> f y tt args = Inr v \<longrightarrow> length v = n"
    and r: "length r = n" and yi: "length yi = n"
    and st: "rk45_stages f r yi ti h args = Inr ks"
  shows "\<exists>y5. order5 yi ks = Inr y5"
proof -
  obtain k1 k2 k3 k4 k5 k6 where ks: "ks = (k1, k2, k3, k4, k5, k6)"
    by (metis prod_cases6)
  from stages_lengths [where f=f and args=args, OF P r yi st [unfolded ks]]
  have "\<forall>v\<in>set [smul b1 k1, smul b3 k3, smul b4 k4, smul b5 k5, smul b6 k6]. length v = n"
    by simp
  from np_sum_same [OF yi this] show ?thesis
    unfolding ks order5_def by simp
qed

lemma body_no_y5_eq:
  assumes P: "\<forall>y tt v. length y = n \<longrightarrow> f y tt args = Inr v \<longrightarrow> length v = n"
    and inv: "\<forall>v\<in>set (rows y). length v = n"
  shows "rk45_body f t args i y = rk45_body_no_y5 f t args i y"
  unfolding rk45_body_def rk45_body_no_y5_def Let_def
proof (intro bind_err_cong)
  fix t1 t0 r ks y4
  assume gi: "getitem (rows y) i = Inr r"
    and st: "rk45_stages f r (as_float (dtype y) r) t0 (fsub t1 t0) args = Inr ks"
  from gi inv have lr: "length r = n"
    by (auto simp: getitem_def split: if_splits)
  then have "length (as_float (dtype y) r) = n" by simp
  from order5_defined [where f=f and args=args, OF P lr this st]
  obtain y5 where "order5 (as_float (dtype y) r) ks = Inr y5" by blast
  then show "bind_err (setitem_row y (i + 1) y4)
      (\<lambda>y'. bind_err (order5 (as_float (dtype y) r) ks) (\<lambda>y5. Inr y')) =
    setitem_row y (i + 1) y4" by simp
qed

lemma body_no_y5_rows:
  assumes "rk45_body_no_y5 f t args i y = Inr y'" "\<forall>v\<in>set (rows y). length v = n"
  shows "\<forall>v\<in>set (rows y'). length v = n"
proof -
  from assms(1) obtain y4 r where "i + 1 < length (rows y)"
    "row_store (dtype y) (length (rows y ! (i + 1))) y4 = Inr r"
    "y' = y\<lparr>rows := (rows y)[i + 1 := r]\<rparr>"
    by (auto simp: rk45_body_no_y5_def bind_err_Inr_iff getitem_def setitem_row_def
        Let_def split: if_splits)
  moreover from this assms(2) have "length r = n"
    by (auto dest!: row_store_length)
  ultimately show ?thesis
    using assms(2) by (auto dest!: set_update_subset_insert [THEN subsetD])
qed

lemma loop_no_y5_eq:
  assumes P: "\<forall>y tt v. length y = n \<longrightarrow> f y tt args = Inr v \<longrightarrow> length v = n"
  shows "\<forall>v\<in>set (rows y). length v = n \<Longrightarrow>
    rk45_loop f t args i r y = rk45_loop_no_y5 f t args i r y"
proof (induction r arbitrary: i y)
  case 0
  then show ?case by simp
next
  case (Suc r)
  have b: "rk45_body f t args i y = rk45_body_no_y5 f t args i y"
    by (rule body_no_y5_eq [where f=f and args=args, OF P Suc.prems])
  show ?case
    unfolding rk45_loop.simps rk45_loop_no_y5.simps b
  proof (rule bind_err_cong)
    fix y1
    assume "rk45_body_no_y5 f t args i y = Inr y1"
    from body_no_y5_rows [OF this Suc.prems]
    show "rk45_loop f t args (Suc i) r y1 = rk45_loop_no_y5 f t args (Suc i) r y1"
      by (rule Suc.IH)
  qed
qed

lemma rk45_short_grid:
  assumes "length t < 2"
  shows "rk45 f y0 t args = Inr (np_array_rep y0 (length t))"
proof -
  from assms have "length t - 1 = 0" by simp
  then show ?thesis by (simp add: rk45_def Let_def)
qed

lemma rk45_row_length:
  assumes Y: "rk45 f y0 t args = Inr Y" and j: "j < length t"
  shows "length (rows Y ! j) = length y0"
proof (cases j)
  case 0
  with rk45_Inr [OF Y] j show ?thesis by auto
next
  case (Suc k)
  with rk45_Inr [OF Y] j obtain y4 where
    "row_store (dtype (np_array_rep y0 (length t))) (length y0) y4 = Inr (rows Y ! (k + 1))"
    by auto
  from row_store_length [OF this] Suc show ?thesis by simp
qed

lemma rk45_well_shaped:
  assumes H: "\<forall>y tt. length y = length y0 \<longrightarrow>
      f y tt args = Inr (g y tt) \<and> length (g y tt) = length y0"
  shows "\<exists>Y. rk45 f y0 t args = Inr Y \<and> length (rows Y) = length t \<and>
    (\<forall>i. i + 1 < length t \<longrightarrow>
       (\<exists>y4. step_value f (dtype Y) (rows Y ! i) (t ! i) (fsub (t ! (i + 1)) (t ! i)) args
                = Inr y4 \<and>
              rows Y ! (i + 1) = cast_to (dtype Y) y4) \<and>
       (dtype Y = Float64 \<longrightarrow>
          rows Y ! (i + 1) =
            rkf4_estimate g (rows Y ! i) (t ! i) (fsub (t ! (i + 1)) (t ! i))))"
proof -
  let ?y = "np_array_rep y0 (length t)"
  have "\<exists>Y. rk45_loop f t args 0 (length t - 1) ?y = Inr Y"
    by (rule well_shaped_loop [where f=f and g=g and args=args, OF H])
       (auto simp: np_array_rep_def)
  then obtain Y where Y: "rk45 f y0 t args = Inr Y"
    by (auto simp: rk45_def Let_def)
  note R = rk45_Inr [OF Y]
  have "(\<exists>y4. step_value f (dtype Y) (rows Y ! i) (t ! i) (fsub (t ! (i + 1)) (t ! i)) args
                = Inr y4 \<and>
              rows Y ! (i + 1) = cast_to (dtype Y) y4) \<and>
       (dtype Y = Float64 \<longrightarrow>
          rows Y ! (i + 1) =
            rkf4_estimate g (rows Y ! i) (t ! i) (fsub (t ! (i + 1)) (t ! i)))"
    if i: "i + 1 < length t" for i
  proof -
    let ?h = "fsub (t ! (i + 1)) (t ! i)"
    let ?yi = "as_float (dtype Y) (rows Y ! i)"
    from i have "i < length t" by simp
    from rk45_row_length [OF Y this] have lr: "length (rows Y ! i) = length y0" .
    then have li: "length ?yi = length y0" by simp
    from well_shaped_step [where f=f and g=g and args=args, OF H lr li, of "t ! i" ?h]
    obtain ks y4 where st: "rk45_stages f (rows Y ! i) ?yi (t ! i) ?h args = Inr ks"
      and o4: "order4 ?yi ks = Inr y4" and le: "length y4 = length y0"
      and eq: "rows Y ! i = ?yi \<longrightarrow> y4 = rkf4_estimate g ?yi (t ! i) ?h"
      by blast
    have sv: "step_value f (dtype Y) (rows Y ! i) (t ! i) ?h args = Inr y4"
      using st o4 by (simp add: step_value_def)
    from R i sv have "row_store (dtype Y) (length y0) y4 = Inr (rows Y ! (i + 1))"
      by auto
    with le have st': "rows Y ! (i + 1) = cast_to (dtype Y) y4"
      by (simp add: row_store_def broadcast_to_def)
    have "rows Y ! (i + 1) = rkf4_estimate g (rows Y ! i) (t ! i) ?h" if "dtype Y = Float64"
      using st' eq that by simp
    with sv st' show ?thesis by blast
  qed
  with Y R show ?thesis by blast
qed


subsection \<open>A right-hand side whose vectors have another length\<close>

text \<open>
  A sum of the state and stage vectors of one length \<open>m\<close> is defined when the state has
  length \<open>m\<close> or 1, or \<open>m\<close> is 1; a state of length 1 is stretched to \<open>m\<close>.
\<close>

lemma np_sum_len:
  "\<forall>v\<in>set vs. length v = m \<Longrightarrow> length s = m \<or> length s = 1 \<or> m = 1 \<Longrightarrow>
   \<exists>x. np_sum s vs = Inr x \<and>
       length x = (if vs = [] then length s else if length s = 1 then m else length s)"
proof (induction vs arbitrary: s)
  case Nil
  then show ?case by simp
next
  case (Cons v vs)
  from Cons.prems have lv: "length v = m" and rest: "\<forall>v\<in>set vs. length v = m" by simp_all
  let ?L = "if length s = 1 then m else length s"
  have "\<exists>x. np_add s v = Inr x \<and> length x = ?L"
    using Cons.prems(2) lv by (auto simp: np_add_def)
  then obtain x where x: "np_add s v = Inr x" and lx: "length x = ?L" by blast
  have "length x = m \<or> length x = 1 \<or> m = 1"
    using lx Cons.prems(2) by (auto split: if_splits)
  from Cons.IH [OF rest this] obtain z where z: "np_sum x vs = Inr z"
    and lz: "length z = (if vs = [] then length x else if length x = 1 then m else length x)"
    by blast
  have "length z = ?L"
    using lz lx Cons.prems(2) by (auto split: if_splits)
  with x z show ?case by simp
qed

lemma stage_total:
  assumes E: "\<forall>y tt. \<exists>v. f y tt args = Inr v \<and> length v = m" and s: "s = Inr x"
  shows "\<exists>k. stage f h s tt args = Inr k \<and> length k = m"
proof -
  from E obtain v where "f x tt args = Inr v" "length v = m" by blast
  with s show ?thesis by (simp add: stage_def)
qed

lemma total_step:
  assumes E: "\<forall>y tt. \<exists>v. f y tt args = Inr v \<and> length v = m"
    and c: "length yi = m \<or> length yi = 1 \<or> m = 1"
  shows "\<exists>ks y4 y5. rk45_stages f r yi ti h args = Inr ks \<and> order4 yi ks = Inr y4 \<and>
    length y4 = (if length yi = 1 then m else length yi) \<and> order5 yi ks = Inr y5"
proof -
  note T = stage_total [where f=f and args=args and h=h, OF E]
  have S: "\<exists>x. np_sum yi vs = Inr x" if "\<forall>v\<in>set vs. length v = m" for vs
    using np_sum_len [OF that c] by blast
  from T [OF refl]
  obtain k1 where s1: "stage f h (Inr r) ti args = Inr k1" and l1: "length k1 = m"
    by blast
  from S [of "[smul c21 k1]"] l1
  obtain x2 where n2: "np_sum yi [smul c21 k1] = Inr x2" by auto
  from T [OF n2]
  obtain k2 where
    s2: "stage f h (np_sum yi [smul c21 k1]) (fadd ti (fmul c20 h)) args = Inr k2"
    and l2: "length k2 = m" by blast
  from S [of "[smul c31 k1, smul c32 k2]"] l1 l2
  obtain x3 where n3: "np_sum yi [smul c31 k1, smul c32 k2] = Inr x3" by auto
  from T [OF n3]
  obtain k3 where
    s3: "stage f h (np_sum yi [smul c31 k1, smul c32 k2]) (fadd ti (fmul c30 h)) args = Inr k3"
    and l3: "length k3 = m" by blast
  from S [of "[smul c41 k1, smul c42 k2, smul c43 k3]"] l1 l2 l3
  obtain x4 where n4: "np_sum yi [smul c41 k1, smul c42 k2, smul c43 k3] = Inr x4" by auto
  from T [OF n4]
  obtain k4 where
    s4: "stage f h (np_sum yi [smul c41 k1, smul c42 k2, smul c43 k3])
           (fadd ti (fmul c40 h)) args = Inr k4"
    and l4: "length k4 = m" by blast
  from S [of "[smul c51 k1, smul c52 k2, smul c53 k3, smul c54 k4]"] l1 l2 l3 l4
  obtain x5 where n5: "np_sum yi [smul c51 k1, smul c52 k2, smul c53 k3, smul c54 k4] = Inr x5"
    by auto
  from T [OF n5]
  obtain k5 where
    s5: "stage f h (np_sum yi [smul c51 k1, smul c52 k2, smul c53 k3, smul c54 k4])
           (fadd ti h) args = Inr k5"
    and l5: "length k5 = m" by blast
  from S [of "[smul c61 k1, smul c62 k2, smul c63 k3, smul c64 k4, smul c65 k5]"]
    l1 l2 l3 l4 l5
  obtain x6 where
    n6: "np_sum yi [smul c61 k1, smul c62 k2, smul c63 k3, smul c64 k4, smul c65 k5] = Inr x6"
    by auto
  from T [OF n6]
  obtain k6 where
    s6: "stage f h
           (np_sum yi [smul c61 k1, smul c62 k2, smul c63 k3, smul c64 k4, smul c65 k5])
           (fadd ti (fmul c60 h)) args = Inr k6"
    and l6: "length k6 = m" by blast
  have st: "rk45_stages f r yi ti h args = Inr (k1, k2, k3, k4, k5, k6)"
    by (simp only: rk45_stages_def s1 s2 s3 s4 s5 s6 bind_err.simps)
  have "\<forall>v\<in>set [smul a1 k1, smul a3 k3, smul a4 k4, smul a5 k5]. length v = m"
    using l1 l3 l4 l5 by simp
  from np_sum_len [OF this c]
  obtain y4 where "np_sum yi [smul a1 k1, smul a3 k3, smul a4 k4, smul a5 k5] = Inr y4"
    "length y4 = (if length yi = 1 then m else length yi)" by auto
  then have o4: "order4 yi (k1, k2, k3, k4, k5, k6) = Inr y4 \<and>
      length y4 = (if length yi = 1 then m else length yi)"
    by (simp add: order4_def)
  from S [of "[smul b1 k1, smul b3 k3, smul b4 k4, smul b5 k5, smul b6 k6]"] l1 l3 l4 l5 l6
  obtain y5 where "np_sum yi [smul b1 k1, smul b3 k3, smul b4 k4, smul b5 k5, smul b6 k6] = Inr y5"
    by auto
  then have "order5 yi (k1, k2, k3, k4, k5, k6) = Inr y5"
    by (simp add: order5_def)
  with st o4 show ?thesis by blast
qed

text \<open>
  A state of a length other than 1 cannot be added to a first stage of another length
  other than 1: the sum for the second stage fails, whatever \<open>f\<close> does elsewhere.
\<close>

lemma first_call_mismatch:
  assumes v: "f r ti args = Inr v"
    and m: "length v \<noteq> length yi" "length v \<noteq> 1" and n: "length yi \<noteq> 1"
  shows "rk45_stages f r yi ti h args = Inl ValueError"
proof -
  have s1: "stage f h (Inr r) ti args = Inr (smul h v)"
    using v by (simp add: stage_def)
  from m n have "np_sum yi [smul c21 (smul h v)] = Inl ValueError"
    by (simp add: np_add_def)
  then have s2: "stage f h (np_sum yi [smul c21 (smul h v)]) (fadd ti (fmul c20 h)) args
      = Inl ValueError"
    by (simp add: stage_def)
  show ?thesis
    by (simp only: rk45_stages_def s1 s2 bind_err.simps)
qed

subsection \<open>The first step\<close>

text \<open>
  On a grid of two points or more the call ends in the first iteration when a stage of
  that iteration raises, and when the step value cannot be stored.
\<close>

lemma rk45_first_body:
  assumes t: "2 \<le> length t"
  shows "rk45 f y0 t args =
    bind_err (rk45_body f t args 0 (np_array_rep y0 (length t)))
      (rk45_loop f t args (Suc 0) (length t - 2))"
proof -
  from t have "length t - 1 = Suc (length t - 2)" by simp
  then show ?thesis by (simp add: rk45_def Let_def)
qed

lemma rk45_first_body_unfold:
  assumes t: "2 \<le> length t"
  shows "rk45_body f t args 0 (np_array_rep y0 (length t)) =
    bind_err (rk45_stages f (np_row y0) (first_row y0 t) (t ! 0) (fsub (t ! 1) (t ! 0)) args) (\<lambda>ks.
    bind_err (order4 (first_row y0 t) ks) (\<lambda>y4.
    bind_err (setitem_row (np_array_rep y0 (length t)) 1 y4) (\<lambda>y'.
    bind_err (order5 (first_row y0 t) ks) (\<lambda>y5. Inr y'))))"
proof -
  from t have "t \<noteq> []" "1 < length t" by auto
  then show ?thesis
    by (simp add: rk45_body_def getitem_def first_row_def np_array_rep_def Let_def)
qed

lemma rk45_first_stage_error:
  assumes t: "2 \<le> length t"
    and e: "rk45_stages f (np_row y0) (first_row y0 t) (t ! 0) (fsub (t ! 1) (t ! 0)) args = Inl e"
  shows "rk45 f y0 t args = Inl e"
  using e by (simp add: rk45_first_body [OF t] rk45_first_body_unfold [OF t])

lemma rk45_first_store_error:
  assumes t: "2 \<le> length t"
    and ks: "rk45_stages f (np_row y0) (first_row y0 t) (t ! 0) (fsub (t ! 1) (t ! 0)) args = Inr ks"
    and y4: "order4 (first_row y0 t) ks = Inr y4"
    and l: "length y4 \<noteq> length y0" "length y4 \<noteq> 1"
  shows "rk45 f y0 t args = Inl ValueError"
proof -
  from t have "1 < length t" by simp
  with l have "setitem_row (np_array_rep y0 (length t)) 1 y4 = Inl ValueError"
    by (simp add: setitem_row_def row_store_def broadcast_to_def np_array_rep_def)
  with ks y4 show ?thesis
    by (simp add: rk45_first_body [OF t] rk45_first_body_unfold [OF t])
qed

lemma length_first_row [simp]: "length (first_row y0 t) = length y0"
  by (simp add: first_row_def)

lemma rk45_mismatch:
  assumes t: "2 \<le> length t"
    and E: "\<forall>y tt. \<exists>v. f y tt args = Inr v \<and> length v = m"
    and m: "m \<noteq> length y0" "m \<noteq> 1"
  shows "rk45 f y0 t args = Inl ValueError"
proof (cases "length y0 = 1")
  case True
  then have "length (first_row y0 t) = m \<or> length (first_row y0 t) = 1 \<or> m = 1" by simp
  from total_step [where f=f and args=args and r="np_row y0" and ti="t ! 0"
      and h="fsub (t ! 1) (t ! 0)", OF E this]
  obtain ks y4 where "rk45_stages f (np_row y0) (first_row y0 t) (t ! 0) (fsub (t ! 1) (t ! 0)) args = Inr ks"
    "order4 (first_row y0 t) ks = Inr y4"
    "length y4 = (if length (first_row y0 t) = 1 then m else length (first_row y0 t))"
    by blast
  moreover from this True have "length y4 = m" by simp
  ultimately have "rk45_stages f (np_row y0) (first_row y0 t) (t ! 0) (fsub (t ! 1) (t ! 0)) args = Inr ks"
    "order4 (first_row y0 t) ks = Inr y4" "length y4 = m"
    by simp_all
  with m show ?thesis by (intro rk45_first_store_error [OF t]) auto
next
  case False
  from E obtain v where v: "f (np_row y0) (t ! 0) args = Inr v" "length v = m" by blast
  with m False
  have "rk45_stages f (np_row y0) (first_row y0 t) (t ! 0) (fsub (t ! 1) (t ! 0)) args = Inl ValueError"
    by (intro first_call_mismatch) auto
  then show ?thesis by (rule rk45_first_stage_error [OF t])
qed

subsection \<open>A right-hand side that returns vectors of length 1\<close>

lemma unit_body:
  assumes E: "\<forall>y tt. \<exists>v. f y tt args = Inr v \<and> length v = 1"
    and t: "i + 1 < length t" and y: "i + 1 < length (rows y)"
    and inv: "\<forall>v\<in>set (rows y). length v = n"
  shows "\<exists>y'. rk45_body f t args i y = Inr y' \<and> length (rows y') = length (rows y) \<and>
    (\<forall>v\<in>set (rows y'). length v = n)"
proof -
  let ?yi = "as_float (dtype y) (rows y ! i)"
  from y inv have li: "length ?yi = n" and li1: "length (rows y ! (i + 1)) = n" by simp_all
  have "length ?yi = 1 \<or> length ?yi = 1 \<or> (1::nat) = 1" by simp
  from total_step [where f=f and args=args and m=1 and r="rows y ! i" and ti="t ! i"
      and h="fsub (t ! (i + 1)) (t ! i)", OF E this]
  obtain ks y4 y5 where
    st: "rk45_stages f (rows y ! i) ?yi (t ! i) (fsub (t ! (i + 1)) (t ! i)) args = Inr ks"
    and o4: "order4 ?yi ks = Inr y4"
    and l4': "length y4 = (if length ?yi = 1 then 1 else length ?yi)"
    and o5: "order5 ?yi ks = Inr y5"
    by blast
  from l4' li have l4: "length y4 = n" by (simp split: if_splits)
  let ?y' = "y\<lparr>rows := (rows y)[i + 1 := cast_to (dtype y) y4]\<rparr>"
  have rs: "row_store (dtype y) n y4 = Inr (cast_to (dtype y) y4)"
    using l4 by (simp add: row_store_def broadcast_to_def)
  have "rk45_body f t args i y = Inr ?y'"
    using t y st o4 o5 rs li1 by (simp add: rk45_body_def getitem_def setitem_row_def Let_def)
  moreover have "\<forall>v\<in>set (rows ?y'). length v = n"
    using inv l4 by (auto dest!: set_update_subset_insert [THEN subsetD])
  ultimately show ?thesis by simp
qed

lemma unit_loop:
  assumes E: "\<forall>y tt. \<exists>v. f y tt args = Inr v \<and> length v = 1"
  shows "i + r < length t \<or> r = 0 \<Longrightarrow> i + r < length (rows y) \<or> r = 0 \<Longrightarrow>
    \<forall>v\<in>set (rows y). length v = n \<Longrightarrow>
    \<exists>Y. rk45_loop f t args i r y = Inr Y \<and> length (rows Y) = length (rows y)"
proof (induction r arbitrary: i y)
  case 0
  then show ?case by simp
next
  case (Suc r)
  from Suc.prems have t: "i + 1 < length t" and y: "i + 1 < length (rows y)" by simp_all
  from unit_body [where f=f and args=args, OF E t y Suc.prems(3)]
  obtain y1 where b: "rk45_body f t args i y = Inr y1"
    and l1: "length (rows y1) = length (rows y)"
    and inv: "\<forall>v\<in>set (rows y1). length v = n" by blast
  have "\<exists>Y. rk45_loop f t args (Suc i) r y1 = Inr Y \<and> length (rows Y) = length (rows y1)"
    using Suc.prems l1 by (intro Suc.IH inv) auto
  with l1 show ?case by (simp add: b)
qed

lemma rk45_unit:
  assumes E: "\<forall>y tt. \<exists>v. f y tt args = Inr v \<and> length v = 1"
  shows "\<exists>Y. rk45 f y0 t args = Inr Y \<and> length (rows Y) = length t"
proof -
  let ?y = "np_array_rep y0 (length t)"
  have "\<exists>Y. rk45_loop f t args 0 (length t - 1) ?y = Inr Y \<and>
      length (rows Y) = length (rows ?y)"
    by (rule unit_loop [where f=f and args=args and n="length y0", OF E])
       (auto simp: np_array_rep_def)
  then show ?thesis by (auto simp: rk45_def Let_def np_array_rep_def)
qed

lemma unit_state_store_error:
  assumes t: "2 \<le> length t"
    and E: "\<forall>y tt. \<exists>v. f y tt args = Inr v \<and> length v = m"
    and m: "m \<noteq> length y0" "m \<noteq> 1" and n: "length y0 = 1"
  shows "\<exists>ks y4. rk45_stages f (np_row y0) (first_row y0 t) (t ! 0) (fsub (t ! 1) (t ! 0)) args
             = Inr ks \<and>
           order4 (first_row y0 t) ks = Inr y4 \<and>
           setitem_row (np_array_rep y0 (length t)) 1 y4 = Inl ValueError"
proof -
  from n have "length (first_row y0 t) = m \<or> length (first_row y0 t) = 1 \<or> m = 1" by simp
  from total_step [where f=f and args=args and r="np_row y0" and ti="t ! 0"
      and h="fsub (t ! 1) (t ! 0)", OF E this]
  obtain ks y4 where
    ks: "rk45_stages f (np_row y0) (first_row y0 t) (t ! 0) (fsub (t ! 1) (t ! 0)) args = Inr ks"
    and y4: "order4 (first_row y0 t) ks = Inr y4"
    and l: "length y4 = (if length (first_row y0 t) = 1 then m else length (first_row y0 t))"
    by blast
  from l n have "length y4 = m" by simp
  moreover from t have "1 < length t" by simp
  ultimately have "setitem_row (np_array_rep y0 (length t)) 1 y4 = Inl ValueError"
    using m by (simp add: setitem_row_def row_store_def broadcast_to_def np_array_rep_def)
  with ks y4 show ?thesis by blast
qed

section \<open>Rounding\<close>

text \<open>
  A rounding is settled by a certificate: the binary exponent \<open>e\<close> of the exact value and
  the integer \<open>q\<close> nearest to the value in units of \<open>2 ^ (e - 52)\<close>.
\<close>

lemma ilog2_eq: "2 ^ k \<le> n \<Longrightarrow> n < 2 ^ Suc k \<Longrightarrow> ilog2 n = int k"
proof (induction k arbitrary: n)
  case 0
  then have "n = 1" by simp
  then show ?case by (simp add: ilog2.simps)
next
  case (Suc k)
  have "(2::int) \<le> 2 ^ Suc k" by simp
  with Suc.prems have n2: "\<not> n < 2" by linarith
  from Suc.prems have "2 ^ k \<le> n div 2" "n div 2 < 2 ^ Suc k" by simp_all
  from Suc.IH [OF this] n2 show ?case
    by (subst ilog2.simps) simp
qed

lemma expo_eqI:
  assumes lo: "2 powi e \<le> \<bar>x\<bar>" and hi: "\<bar>x\<bar> < 2 powi (e + 1)"
  shows "expo x = e"
proof (cases "0 \<le> e")
  case True
  define k where "k = nat e"
  from True have e: "e = int k" by (simp add: k_def)
  from lo have lo': "2 ^ k \<le> \<bar>x\<bar>" by (simp add: e)
  from hi have hi': "\<bar>x\<bar> < 2 ^ Suc k" by (simp add: e power_int_add)
  have "(1::real) \<le> 2 ^ k" by simp
  with lo' have one: "1 \<le> \<bar>x\<bar>" by linarith
  have "(2::int) ^ k \<le> \<lfloor>\<bar>x\<bar>\<rfloor>"
    using lo' by (simp add: le_floor_iff)
  moreover have "\<lfloor>\<bar>x\<bar>\<rfloor> < 2 ^ Suc k"
    using hi' by (simp add: floor_less_iff)
  ultimately have "ilog2 \<lfloor>\<bar>x\<bar>\<rfloor> = int k" by (rule ilog2_eq)
  with one show ?thesis by (simp add: expo_def e)
next
  case False
  define j where "j = nat (- e) - 1"
  from False have e: "e = - int (Suc j)" by (simp add: j_def)
  have pos: "0 < \<bar>x\<bar>"
  proof -
    have "(0::real) < 2 powi e" by simp
    with lo show ?thesis by linarith
  qed
  have "e + 1 = - int j" by (simp add: e)
  then have "(2::real) powi (e + 1) = 1 / 2 ^ j"
    by (simp only: power_int_minus power_int_of_nat inverse_eq_divide)
  with hi have hi': "\<bar>x\<bar> < 1 / 2 ^ j" by simp
  have "(2::real) powi e = 1 / 2 ^ Suc j"
    unfolding e by (simp only: power_int_minus power_int_of_nat inverse_eq_divide)
  with lo have lo': "1 / 2 ^ Suc j \<le> \<bar>x\<bar>" by simp
  have "(1::real) / 2 ^ j \<le> 1" by (simp add: field_simps)
  with hi' have lt1: "\<not> 1 \<le> \<bar>x\<bar>" by linarith
  let ?z = "1 / \<bar>x\<bar>"
  have z_hi: "?z \<le> 2 ^ Suc j"
    using lo' pos by (simp add: field_simps)
  have z_lo: "2 ^ j < ?z"
    using hi' pos by (simp add: field_simps)
  have "\<lceil>?z\<rceil> \<le> 2 ^ Suc j"
    using z_hi by (simp add: ceiling_le_iff)
  moreover have "(2::int) ^ j < \<lceil>?z\<rceil>"
    using z_lo by (simp add: less_ceiling_iff)
  ultimately have "2 ^ j \<le> \<lceil>?z\<rceil> - 1" "\<lceil>?z\<rceil> - 1 < 2 ^ Suc j" by simp_all
  then have "ilog2 (\<lceil>?z\<rceil> - 1) = int j" by (rule ilog2_eq)
  with lt1 show ?thesis by (simp add: expo_def e)
qed

lemma round_even_eqI:
  assumes "\<bar>y - of_int q\<bar> < 1 / 2"
  shows "round_even y = q"
proof (cases "of_int q \<le> y")
  case True
  with assms have "\<lfloor>y\<rfloor> = q" by (intro floor_unique) linarith+
  with assms True show ?thesis by (simp add: round_even_def Let_def)
next
  case False
  have f: "\<lfloor>y\<rfloor> = q - 1"
  proof (rule floor_unique)
    from assms have "real_of_int q - 1 / 2 < y" by linarith
    then show "of_int (q - 1) \<le> y" by simp
    show "y < of_int (q - 1) + 1" using False by simp
  qed
  from assms have "real_of_int q - 1 / 2 < y" by linarith
  then have "1 / 2 < y - of_int (q - 1)" by simp
  with f show ?thesis by (simp add: round_even_def Let_def)
qed

lemma rnd_eqI:
  assumes lo: "2 powi e \<le> \<bar>x\<bar>" and hi: "\<bar>x\<bar> < 2 powi (e + 1)"
    and e: "- 1022 \<le> e" "e \<le> 1022"
    and q: "\<bar>x / 2 powi (e - 52) - of_int q\<bar> < 1 / 2"
  shows "rnd x = Fin (of_int q * 2 powi (e - 52))"
proof -
  have "(0::real) < 2 powi e" by simp
  with lo have "0 < \<bar>x\<bar>" by linarith
  then have x: "x \<noteq> 0" by auto
  have ex: "expo x = e" using lo hi by (rule expo_eqI)
  from e have m: "max e (- 1022) = e" by simp
  from q have r: "round_even (x / 2 powi (e - 52)) = q" by (rule round_even_eqI)
  from e show ?thesis
    by (simp add: rnd_def x ex m r Let_def)
qed

lemma round_even_tie:
  assumes "y = of_int n + 1 / 2"
  shows "round_even y = (if even n then n else n + 1)"
proof -
  have "\<lfloor>y\<rfloor> = n" unfolding assms by (rule floor_unique) simp_all
  then show ?thesis by (simp add: round_even_def Let_def assms)
qed

lemma rnd_tieI:
  assumes lo: "2 powi e \<le> \<bar>x\<bar>" and hi: "\<bar>x\<bar> < 2 powi (e + 1)"
    and e: "- 1022 \<le> e" "e \<le> 1022"
    and n: "x / 2 powi (e - 52) = of_int n + 1 / 2"
  shows "rnd x = Fin (of_int (if even n then n else n + 1) * 2 powi (e - 52))"
proof -
  have "(0::real) < 2 powi e" by simp
  with lo have "0 < \<bar>x\<bar>" by linarith
  then have x: "x \<noteq> 0" by auto
  have ex: "expo x = e" using lo hi by (rule expo_eqI)
  from e have m: "max e (- 1022) = e" by simp
  from n have r: "round_even (x / 2 powi (e - 52)) = (if even n then n else n + 1)"
    by (rule round_even_tie)
  from e show ?thesis
    by (simp add: rnd_def x ex m r Let_def)
qed



subsection \<open>The roundings of the runs below\<close>

lemma lit_a1: "a1 = Fin (521249956871585 / 4503599627370496)"
  using rnd_eqI [where e="- 4" and q="8339999309945360" and x="1157407407407407 / 10 ^ 16"]
  by (simp add: power_int_minus a1_def)

lemma lit_a3: "a3 = Fin (4944302748801293 / 9007199254740992)"
  using rnd_eqI [where e="- 1" and q="4944302748801293" and x="5489278752436647 / 10 ^ 16"]
  by (simp add: power_int_minus a3_def)

lemma lit_a4: "a4 = Fin (4821836443144727 / 9007199254740992)"
  using rnd_eqI [where e="- 1" and q="4821836443144727" and x="5353313840155945 / 10 ^ 16"]
  by (simp add: power_int_minus a4_def)

lemma lit_a5: "a5 = Fin (- (3602879701896397 / 18014398509481984))"
  using rnd_eqI [where e="- 3" and q="- 7205759403792794" and x="- 2000000000000000 / 10 ^ 16"]
  by (simp add: power_int_minus a5_def)

lemma lit_1e30: "rnd (10 ^ 30) = Fin 1000000000000000019884624838656"
  using rnd_eqI [where e="99" and q="7105427357601002" and x="10 ^ 30"]
  by (simp add: power_int_minus)

lemma lit_25_216: "rnd (25 / 216) = Fin (8339999309945363 / 72057594037927936)"
  using rnd_eqI [where e="- 4" and q="8339999309945363" and x="25 / 216"]
  by (simp add: power_int_minus)

lemma rnd_one: "rnd 1 = Fin 1"
  using rnd_eqI [where e="0" and q="4503599627370496" and x="1"]
  by (simp add: power_int_minus)

lemma rnd_two: "rnd 2 = Fin 2"
  using rnd_eqI [where e="1" and q="4503599627370496" and x="2"]
  by (simp add: power_int_minus)

lemma lit_1e30_numeral:
  "rnd 1000000000000000000000000000000 = Fin 1000000000000000019884624838656"
  using rnd_eqI [where e="99" and q="7105427357601002" and x="10 ^ 30"]
  by (simp add: power_int_minus)

lemma rnd_2_53_1: "rnd 9007199254740993 = Fin 9007199254740992"
  using rnd_tieI [where e="53" and n="4503599627370496" and x="9007199254740993"]
  by (simp add: power_int_minus)

lemma op1: "fsub (Fin 1) (Fin 0) = Fin 1"
  using rnd_eqI [where e="0" and q="4503599627370496" and x="1 - 0"]
  by (simp add: power_int_minus)

lemma op2: "fmul (Fin 1) (Fin (1 / 2)) = Fin (1 / 2)"
  using rnd_eqI [where e="- 1" and q="4503599627370496" and x="1 * (1 / 2)"]
  by (simp add: power_int_minus)

lemma op3:
  "fmul (Fin (521249956871585 / 4503599627370496)) (Fin (1 / 2)) =
     Fin (521249956871585 / 9007199254740992)"
  using rnd_eqI [where e="- 5" and q="8339999309945360"
      and x="(521249956871585 / 4503599627370496) * (1 / 2)"]
  by (simp add: power_int_minus)

lemma op4:
  "fadd (Fin 1) (Fin (521249956871585 / 9007199254740992)) =
     Fin (297764037862893 / 281474976710656)"
  using rnd_tieI [where e="0" and n="4764224605806288"
      and x="1 + (521249956871585 / 9007199254740992)"]
  by (simp add: power_int_minus)

lemma op5:
  "fmul (Fin (4944302748801293 / 9007199254740992)) (Fin (1 / 2)) =
     Fin (4944302748801293 / 18014398509481984)"
  using rnd_eqI [where e="- 2" and q="4944302748801293"
      and x="(4944302748801293 / 9007199254740992) * (1 / 2)"]
  by (simp add: power_int_minus)

lemma op6:
  "fadd (Fin (297764037862893 / 281474976710656)) (Fin (4944302748801293 / 18014398509481984)) =
     Fin (6000300293006611 / 4503599627370496)"
  using rnd_eqI [where e="0" and q="6000300293006611"
      and x="(297764037862893 / 281474976710656) + (4944302748801293 / 18014398509481984)"]
  by (simp add: power_int_minus)

lemma op7:
  "fmul (Fin (4821836443144727 / 9007199254740992)) (Fin (1 / 2)) =
     Fin (4821836443144727 / 18014398509481984)"
  using rnd_eqI [where e="- 2" and q="4821836443144727"
      and x="(4821836443144727 / 9007199254740992) * (1 / 2)"]
  by (simp add: power_int_minus)

lemma op8:
  "fadd (Fin (6000300293006611 / 4503599627370496)) (Fin (4821836443144727 / 18014398509481984)) =
     Fin (7205759403792793 / 4503599627370496)"
  using rnd_eqI [where e="0" and q="7205759403792793"
      and x="(6000300293006611 / 4503599627370496) + (4821836443144727 / 18014398509481984)"]
  by (simp add: power_int_minus)

lemma op9:
  "fmul (Fin (- (3602879701896397 / 18014398509481984))) (Fin (1 / 2)) =
     Fin (- (3602879701896397 / 36028797018963968))"
  using rnd_eqI [where e="- 4" and q="- 7205759403792794"
      and x="(- (3602879701896397 / 18014398509481984)) * (1 / 2)"]
  by (simp add: power_int_minus)

lemma op10:
  "fadd (Fin (7205759403792793 / 4503599627370496)) (Fin (- (3602879701896397 / 36028797018963968))) =
     Fin (6755399441055743 / 4503599627370496)"
  using rnd_eqI [where e="0" and q="6755399441055743"
      and x="(7205759403792793 / 4503599627370496) + (- (3602879701896397 / 36028797018963968))"]
  by (simp add: power_int_minus)

lemma op11: "fmul (Fin 1) (Fin (3 / 2)) = Fin (3 / 2)"
  using rnd_eqI [where e="0" and q="6755399441055744" and x="1 * (3 / 2)"]
  by (simp add: power_int_minus)

lemma op12:
  "fmul (Fin (521249956871585 / 4503599627370496)) (Fin (3 / 2)) =
     Fin (1563749870614755 / 9007199254740992)"
  using rnd_eqI [where e="- 3" and q="6254999482459020"
      and x="(521249956871585 / 4503599627370496) * (3 / 2)"]
  by (simp add: power_int_minus)

lemma op13:
  "fadd (Fin 2) (Fin (1563749870614755 / 9007199254740992)) =
     Fin (4894537095024185 / 2251799813685248)"
  using rnd_eqI [where e="1" and q="4894537095024185"
      and x="2 + (1563749870614755 / 9007199254740992)"]
  by (simp add: power_int_minus)

lemma op14:
  "fmul (Fin (4944302748801293 / 9007199254740992)) (Fin (3 / 2)) =
     Fin (1854113530800485 / 2251799813685248)"
  using rnd_tieI [where e="- 1" and n="7416454123201939"
      and x="(4944302748801293 / 9007199254740992) * (3 / 2)"]
  by (simp add: power_int_minus)

lemma op15:
  "fadd (Fin (4894537095024185 / 2251799813685248)) (Fin (1854113530800485 / 2251799813685248)) =
     Fin (3374325312912335 / 1125899906842624)"
  using rnd_eqI [where e="1" and q="6748650625824670"
      and x="(4894537095024185 / 2251799813685248) + (1854113530800485 / 2251799813685248)"]
  by (simp add: power_int_minus)

lemma op16:
  "fmul (Fin (4821836443144727 / 9007199254740992)) (Fin (3 / 2)) =
     Fin (3616377332358545 / 4503599627370496)"
  using rnd_tieI [where e="- 1" and n="7232754664717090"
      and x="(4821836443144727 / 9007199254740992) * (3 / 2)"]
  by (simp add: power_int_minus)

lemma op17:
  "fadd (Fin (3374325312912335 / 1125899906842624)) (Fin (3616377332358545 / 4503599627370496)) =
     Fin (4278419646001971 / 1125899906842624)"
  using rnd_tieI [where e="1" and n="8556839292003942"
      and x="(3374325312912335 / 1125899906842624) + (3616377332358545 / 4503599627370496)"]
  by (simp add: power_int_minus)

lemma op18:
  "fmul (Fin (- (3602879701896397 / 18014398509481984))) (Fin (3 / 2)) =
     Fin (- (1351079888211149 / 4503599627370496))"
  using rnd_tieI [where e="- 2" and n="- 5404319552844596"
      and x="(- (3602879701896397 / 18014398509481984)) * (3 / 2)"]
  by (simp add: power_int_minus)

lemma op19:
  "fadd (Fin (4278419646001971 / 1125899906842624)) (Fin (- (1351079888211149 / 4503599627370496))) =
     Fin (7 / 2)"
  using rnd_tieI [where e="1" and n="7881299347898367"
      and x="(4278419646001971 / 1125899906842624) + (- (1351079888211149 / 4503599627370496))"]
  by (simp add: power_int_minus)

lemma op20: "fmul (Fin 1) (Fin 1) = Fin 1"
  using rnd_eqI [where e="0" and q="4503599627370496" and x="1 * 1"]
  by (simp add: power_int_minus)

lemma op21:
  "fmul (Fin (521249956871585 / 4503599627370496)) (Fin 1) =
     Fin (521249956871585 / 4503599627370496)"
  using rnd_eqI [where e="- 4" and q="8339999309945360"
      and x="(521249956871585 / 4503599627370496) * 1"]
  by (simp add: power_int_minus)

lemma op22:
  "fadd (Fin 1) (Fin (521249956871585 / 4503599627370496)) =
     Fin (5024849584242081 / 4503599627370496)"
  using rnd_eqI [where e="0" and q="5024849584242081"
      and x="1 + (521249956871585 / 4503599627370496)"]
  by (simp add: power_int_minus)

lemma op23:
  "fmul (Fin (4944302748801293 / 9007199254740992)) (Fin 1) =
     Fin (4944302748801293 / 9007199254740992)"
  using rnd_eqI [where e="- 1" and q="4944302748801293"
      and x="(4944302748801293 / 9007199254740992) * 1"]
  by (simp add: power_int_minus)

lemma op24:
  "fadd (Fin (5024849584242081 / 4503599627370496)) (Fin (4944302748801293 / 9007199254740992)) =
     Fin (937125119830341 / 562949953421312)"
  using rnd_tieI [where e="0" and n="7497000958642727"
      and x="(5024849584242081 / 4503599627370496) + (4944302748801293 / 9007199254740992)"]
  by (simp add: power_int_minus)

lemma op25:
  "fmul (Fin (4821836443144727 / 9007199254740992)) (Fin 1) =
     Fin (4821836443144727 / 9007199254740992)"
  using rnd_eqI [where e="- 1" and q="4821836443144727"
      and x="(4821836443144727 / 9007199254740992) * 1"]
  by (simp add: power_int_minus)

lemma op26:
  "fadd (Fin (937125119830341 / 562949953421312)) (Fin (4821836443144727 / 9007199254740992)) =
     Fin (2476979795053773 / 1125899906842624)"
  using rnd_eqI [where e="1" and q="4953959590107546"
      and x="(937125119830341 / 562949953421312) + (4821836443144727 / 9007199254740992)"]
  by (simp add: power_int_minus)

lemma op27:
  "fmul (Fin (- (3602879701896397 / 18014398509481984))) (Fin 1) =
     Fin (- (3602879701896397 / 18014398509481984))"
  using rnd_eqI [where e="- 3" and q="- 7205759403792794"
      and x="(- (3602879701896397 / 18014398509481984)) * 1"]
  by (simp add: power_int_minus)

lemma op28:
  "fadd (Fin (2476979795053773 / 1125899906842624)) (Fin (- (3602879701896397 / 18014398509481984))) =
     Fin 2"
  using rnd_eqI [where e="1" and q="4503599627370496"
      and x="(2476979795053773 / 1125899906842624) + (- (3602879701896397 / 18014398509481984))"]
  by (simp add: power_int_minus)

lemma op29:
  "fmul (Fin 1) (Fin 1000000000000000019884624838656) =
     Fin 1000000000000000019884624838656"
  using rnd_eqI [where e="99" and q="7105427357601002"
      and x="1 * 1000000000000000019884624838656"]
  by (simp add: power_int_minus)

lemma op30:
  "fmul (Fin (521249956871585 / 4503599627370496)) (Fin 1000000000000000019884624838656) =
     Fin 115740740740740708509392306176"
  using rnd_eqI [where e="96" and q="6579099405186111"
      and x="(521249956871585 / 4503599627370496) * 1000000000000000019884624838656"]
  by (simp add: power_int_minus)

lemma op31:
  "fadd (Fin 1) (Fin 115740740740740708509392306176) =
     Fin 115740740740740708509392306176"
  using rnd_eqI [where e="96" and q="6579099405186111"
      and x="1 + 115740740740740708509392306176"]
  by (simp add: power_int_minus)

lemma op32:
  "fmul (Fin (4944302748801293 / 9007199254740992)) (Fin 1000000000000000019884624838656) =
     Fin 548927875243664717784285184000"
  using rnd_eqI [where e="98" and q="7800734284212250"
      and x="(4944302748801293 / 9007199254740992) * 1000000000000000019884624838656"]
  by (simp add: power_int_minus)

lemma op33:
  "fadd (Fin 115740740740740708509392306176) (Fin 548927875243664717784285184000) =
     Fin 664668615984405443885863534592"
  using rnd_eqI [where e="99" and q="4722754567754389"
      and x="115740740740740708509392306176 + 548927875243664717784285184000"]
  by (simp add: power_int_minus)

lemma op34:
  "fmul (Fin (4821836443144727 / 9007199254740992)) (Fin 1000000000000000019884624838656) =
     Fin 535331384015594523680690929664"
  using rnd_eqI [where e="98" and q="7607516522733626"
      and x="(4821836443144727 / 9007199254740992) * 1000000000000000019884624838656"]
  by (simp add: power_int_minus)

lemma op35:
  "fadd (Fin 664668615984405443885863534592) (Fin 535331384015594523680690929664) =
     Fin 1199999999999999967566554464256"
  using rnd_eqI [where e="99" and q="8526512829121202"
      and x="664668615984405443885863534592 + 535331384015594523680690929664"]
  by (simp add: power_int_minus)

lemma op36:
  "fmul (Fin (- (3602879701896397 / 18014398509481984))) (Fin 1000000000000000019884624838656) =
     Fin (- 200000000000000018050673803264)"
  using rnd_eqI [where e="97" and q="- 5684341886080802"
      and x="(- (3602879701896397 / 18014398509481984)) * 1000000000000000019884624838656"]
  by (simp add: power_int_minus)

lemma op37:
  "fadd (Fin 1199999999999999967566554464256) (Fin (- 200000000000000018050673803264)) =
     Fin 1000000000000000019884624838656"
  using rnd_tieI [where e="99" and n="7105427357601001"
      and x="1199999999999999967566554464256 + (- 200000000000000018050673803264)"]
  by (simp add: power_int_minus)

lemma op38: "fsub (Fin 0) (Fin 1) = Fin (- 1)"
  using rnd_eqI [where e="0" and q="- 4503599627370496" and x="0 - 1"]
  by (simp add: power_int_minus)

lemma op39: "fmul (Fin (- 1)) (Fin 1) = Fin (- 1)"
  using rnd_eqI [where e="0" and q="- 4503599627370496" and x="(- 1) * 1"]
  by (simp add: power_int_minus)

lemma op40:
  "fmul (Fin (521249956871585 / 4503599627370496)) (Fin (- 1)) =
     Fin (- (521249956871585 / 4503599627370496))"
  using rnd_eqI [where e="- 4" and q="- 8339999309945360"
      and x="(521249956871585 / 4503599627370496) * (- 1)"]
  by (simp add: power_int_minus)

lemma op41:
  "fadd (Fin 1) (Fin (- (521249956871585 / 4503599627370496))) =
     Fin (3982349670498911 / 4503599627370496)"
  using rnd_eqI [where e="- 1" and q="7964699340997822"
      and x="1 + (- (521249956871585 / 4503599627370496))"]
  by (simp add: power_int_minus)

lemma op42:
  "fmul (Fin (4944302748801293 / 9007199254740992)) (Fin (- 1)) =
     Fin (- (4944302748801293 / 9007199254740992))"
  using rnd_eqI [where e="- 1" and q="- 4944302748801293"
      and x="(4944302748801293 / 9007199254740992) * (- 1)"]
  by (simp add: power_int_minus)

lemma op43:
  "fadd (Fin (3982349670498911 / 4503599627370496)) (Fin (- (4944302748801293 / 9007199254740992))) =
     Fin (3020396592196529 / 9007199254740992)"
  using rnd_eqI [where e="- 2" and q="6040793184393058"
      and x="(3982349670498911 / 4503599627370496) + (- (4944302748801293 / 9007199254740992))"]
  by (simp add: power_int_minus)

lemma op44:
  "fmul (Fin (4821836443144727 / 9007199254740992)) (Fin (- 1)) =
     Fin (- (4821836443144727 / 9007199254740992))"
  using rnd_eqI [where e="- 1" and q="- 4821836443144727"
      and x="(4821836443144727 / 9007199254740992) * (- 1)"]
  by (simp add: power_int_minus)

lemma op45:
  "fadd (Fin (3020396592196529 / 9007199254740992)) (Fin (- (4821836443144727 / 9007199254740992))) =
     Fin (- (900719925474099 / 4503599627370496))"
  using rnd_eqI [where e="- 3" and q="- 7205759403792792"
      and x="(3020396592196529 / 9007199254740992) + (- (4821836443144727 / 9007199254740992))"]
  by (simp add: power_int_minus)

lemma op46:
  "fmul (Fin (- (3602879701896397 / 18014398509481984))) (Fin (- 1)) =
     Fin (3602879701896397 / 18014398509481984)"
  using rnd_eqI [where e="- 3" and q="7205759403792794"
      and x="(- (3602879701896397 / 18014398509481984)) * (- 1)"]
  by (simp add: power_int_minus)

lemma op47:
  "fadd (Fin (- (900719925474099 / 4503599627370496))) (Fin (3602879701896397 / 18014398509481984)) =
     Fin (1 / 18014398509481984)"
  using rnd_eqI [where e="- 54" and q="4503599627370496"
      and x="(- (900719925474099 / 4503599627370496)) + (3602879701896397 / 18014398509481984)"]
  by (simp add: power_int_minus)

lemma op48:
  "fadd (Fin 2) (Fin (521249956871585 / 4503599627370496)) =
     Fin (297764037862893 / 140737488355328)"
  using rnd_tieI [where e="1" and n="4764224605806288"
      and x="2 + (521249956871585 / 4503599627370496)"]
  by (simp add: power_int_minus)

lemma op49:
  "fadd (Fin (297764037862893 / 140737488355328)) (Fin (4944302748801293 / 9007199254740992)) =
     Fin (6000300293006611 / 2251799813685248)"
  using rnd_eqI [where e="1" and q="6000300293006611"
      and x="(297764037862893 / 140737488355328) + (4944302748801293 / 9007199254740992)"]
  by (simp add: power_int_minus)

lemma op50:
  "fadd (Fin (6000300293006611 / 2251799813685248)) (Fin (4821836443144727 / 9007199254740992)) =
     Fin (7205759403792793 / 2251799813685248)"
  using rnd_eqI [where e="1" and q="7205759403792793"
      and x="(6000300293006611 / 2251799813685248) + (4821836443144727 / 9007199254740992)"]
  by (simp add: power_int_minus)

lemma op51:
  "fadd (Fin (7205759403792793 / 2251799813685248)) (Fin (- (3602879701896397 / 18014398509481984))) =
     Fin (6755399441055743 / 2251799813685248)"
  using rnd_eqI [where e="1" and q="6755399441055743"
      and x="(7205759403792793 / 2251799813685248) + (- (3602879701896397 / 18014398509481984))"]
  by (simp add: power_int_minus)

lemma op52: "fmul (Fin 1) (Fin 0) = Fin 0"
  by (simp add: rnd_def)

lemma op53: "fadd (Fin 1) (Fin 0) = Fin 1"
  using rnd_eqI [where e="0" and q="4503599627370496" and x="1 + 0"]
  by (simp add: power_int_minus)

lemma op54: "fadd (Fin 2) (Fin 0) = Fin 2"
  using rnd_eqI [where e="1" and q="4503599627370496" and x="2 + 0"]
  by (simp add: power_int_minus)

lemma op55: "fadd (Fin (1 / 2)) (Fin 0) = Fin (1 / 2)"
  using rnd_eqI [where e="- 1" and q="4503599627370496" and x="(1 / 2) + 0"]
  by (simp add: power_int_minus)

lemma op56: "fadd (Fin 9007199254740992) (Fin 0) = Fin 9007199254740992"
  using rnd_eqI [where e="53" and q="4503599627370496" and x="9007199254740992 + 0"]
  by (simp add: power_int_minus)

lemma lit_c20: "c20 = Fin (1 / 4)"
  using rnd_eqI [where e="- 2" and q="4503599627370496" and x="2500000000000000 / 10 ^ 16"]
  by (simp add: power_int_minus c20_def)

lemma lit_c30: "c30 = Fin (3 / 8)"
  using rnd_eqI [where e="- 2" and q="6755399441055744" and x="3750000000000000 / 10 ^ 16"]
  by (simp add: power_int_minus c30_def)

lemma lit_c40: "c40 = Fin (4157168886803535 / 4503599627370496)"
  using rnd_eqI [where e="- 1" and q="8314337773607070" and x="9230769230769231 / 10 ^ 16"]
  by (simp add: power_int_minus c40_def)

lemma lit_c60: "c60 = Fin (1 / 2)"
  using rnd_eqI [where e="- 1" and q="4503599627370496" and x="5000000000000000 / 10 ^ 16"]
  by (simp add: power_int_minus c60_def)

lemma tq1: "fmul (Fin (1 / 4)) (Fin 1) = Fin (1 / 4)"
  using rnd_eqI [where e="- 2" and q="4503599627370496" and x="(1 / 4) * 1"]
  by (simp add: power_int_minus)

lemma tq2: "fadd (Fin 0) (Fin (1 / 4)) = Fin (1 / 4)"
  using rnd_eqI [where e="- 2" and q="4503599627370496" and x="0 + (1 / 4)"]
  by (simp add: power_int_minus)

lemma tq3: "fmul (Fin (3 / 8)) (Fin 1) = Fin (3 / 8)"
  using rnd_eqI [where e="- 2" and q="6755399441055744" and x="(3 / 8) * 1"]
  by (simp add: power_int_minus)

lemma tq4: "fadd (Fin 0) (Fin (3 / 8)) = Fin (3 / 8)"
  using rnd_eqI [where e="- 2" and q="6755399441055744" and x="0 + (3 / 8)"]
  by (simp add: power_int_minus)

lemma tq5:
  "fmul (Fin (4157168886803535 / 4503599627370496)) (Fin 1) =
     Fin (4157168886803535 / 4503599627370496)"
  using rnd_eqI [where e="- 1" and q="8314337773607070"
      and x="(4157168886803535 / 4503599627370496) * 1"]
  by (simp add: power_int_minus)

lemma tq6:
  "fadd (Fin 0) (Fin (4157168886803535 / 4503599627370496)) =
     Fin (4157168886803535 / 4503599627370496)"
  using rnd_eqI [where e="- 1" and q="8314337773607070"
      and x="0 + (4157168886803535 / 4503599627370496)"]
  by (simp add: power_int_minus)

lemma tq7: "fadd (Fin 0) (Fin 1) = Fin 1"
  using rnd_eqI [where e="0" and q="4503599627370496" and x="0 + 1"]
  by (simp add: power_int_minus)

lemma tq8: "fmul (Fin (1 / 2)) (Fin 1) = Fin (1 / 2)"
  using rnd_eqI [where e="- 1" and q="4503599627370496" and x="(1 / 2) * 1"]
  by (simp add: power_int_minus)

lemma tq9: "fadd (Fin 0) (Fin (1 / 2)) = Fin (1 / 2)"
  using rnd_eqI [where e="- 1" and q="4503599627370496" and x="0 + (1 / 2)"]
  by (simp add: power_int_minus)

lemma tq10:
  "fadd (Fin 0) (Fin (521249956871585 / 4503599627370496)) =
     Fin (521249956871585 / 4503599627370496)"
  using rnd_eqI [where e="- 4" and q="8339999309945360"
      and x="0 + (521249956871585 / 4503599627370496)"]
  by (simp add: power_int_minus)

lemma tq11:
  "fadd (Fin (521249956871585 / 4503599627370496)) (Fin 0) =
     Fin (521249956871585 / 4503599627370496)"
  using rnd_eqI [where e="- 4" and q="8339999309945360"
      and x="(521249956871585 / 4503599627370496) + 0"]
  by (simp add: power_int_minus)

lemmas round_facts =
  lit_a1 lit_a3 lit_a4 lit_a5 lit_1e30 lit_25_216 rnd_one rnd_two
  lit_1e30_numeral rnd_2_53_1 op1 op2 op3 op4 op5 op6
  op7 op8 op9 op10 op11 op12 op13 op14
  op15 op16 op17 op18 op19 op20 op21 op22
  op23 op24 op25 op26 op27 op28 op29 op30
  op31 op32 op33 op34 op35 op36 op37 op38
  op39 op40 op41 op42 op43 op44 op45 op46
  op47 op48 op49 op50 op51 op52 op53 op54
  op55 op56 lit_c20 lit_c30 lit_c40 lit_c60 tq1 tq2
  tq3 tq4 tq5 tq6 tq7 tq8 tq9 tq10
  tq11

section \<open>Concrete runs\<close>

text \<open>
  The runs below are evaluated operation by operation; every rounding in them is one of
  the facts above.
\<close>

lemmas run_defs =
  rk45_def np_array_rep_def np_row_def all_ints_def rk45_body_def getitem_def rk45_stages_def
  stage_def smul_def np_add_def order4_def order5_def setitem_row_def row_store_def
  broadcast_to_def step_value_def Let_def

lemma fmul_zero [simp]: "fmul (Fin x) (Fin 0) = Fin 0"
  by (simp add: rnd_def)

lemma cast_run_half:
  "int64_cast (Fin (6755399441055743 / 4503599627370496)) = Fin 1"
  by (simp add: trunc_zero_def)

lemma cast_run_seven_halves: "int64_cast (Fin (7 / 2)) = Fin 3"
  by (simp add: trunc_zero_def)

lemma cast_run_two: "int64_cast (Fin 2) = Fin 2"
  by (simp add: trunc_zero_def)

lemma cast_run_big:
  "int64_cast (Fin 1000000000000000019884624838656) = Fin (- 9223372036854775808)"
  by (simp add: trunc_zero_def)

lemmas cast_facts = cast_run_half cast_run_seven_halves cast_run_two cast_run_big

lemma ex_int_half:
  "rk45 (\<lambda>y t (a::unit). Inr [Fin (1 / 2)]) [PyInt 1] [Fin 0, Fin 1] () =
     Inr \<lparr>dtype = Int64, rows = [[Fin 1], [Fin 1]]\<rparr>"
  by (simp add: run_defs round_facts cast_facts
      del: fadd.simps fsub.simps fmul.simps int64_cast.simps)

lemma ex_int_half_step:
  "step_value (\<lambda>y t (a::unit). Inr [Fin (1 / 2)]) Int64 [Fin 1] (Fin 0) (fsub (Fin 1) (Fin 0)) () =
     Inr [Fin (6755399441055743 / 4503599627370496)]"
  by (simp add: run_defs round_facts del: fadd.simps fsub.simps fmul.simps)

lemma ex_int_one:
  "rk45 (\<lambda>y t (a::unit). Inr [Fin 1]) [PyInt 1] [Fin 0, Fin 1] () =
     Inr \<lparr>dtype = Int64, rows = [[Fin 1], [Fin 2]]\<rparr>"
  by (simp add: run_defs round_facts cast_facts
      del: fadd.simps fsub.simps fmul.simps int64_cast.simps)

lemma ex_int_three_halves:
  "rk45 (\<lambda>y t (a::unit). Inr [Fin (3 / 2)]) [PyInt 2] [Fin 0, Fin 1] () =
     Inr \<lparr>dtype = Int64, rows = [[Fin 2], [Fin 3]]\<rparr>"
  by (simp add: run_defs round_facts cast_facts
      del: fadd.simps fsub.simps fmul.simps int64_cast.simps)

lemma ex_int_three_halves_step:
  "step_value (\<lambda>y t (a::unit). Inr [Fin (3 / 2)]) Int64 [Fin 2] (Fin 0) (fsub (Fin 1) (Fin 0)) () =
     Inr [Fin (7 / 2)]"
  by (simp add: run_defs round_facts del: fadd.simps fsub.simps fmul.simps)

lemma ex_int_huge:
  "rk45 (\<lambda>y t (a::unit). Inr [rnd (10 ^ 30)]) [PyInt 1] [Fin 0, Fin 1] () =
     Inr \<lparr>dtype = Int64, rows = [[Fin 1], [Fin (- 9223372036854775808)]]\<rparr>"
  by (simp add: run_defs round_facts cast_facts
      del: fadd.simps fsub.simps fmul.simps int64_cast.simps)

lemma ex_int_huge_step:
  "step_value (\<lambda>y t (a::unit). Inr [rnd (10 ^ 30)]) Int64 [Fin 1] (Fin 0) (fsub (Fin 1) (Fin 0)) () =
     Inr [Fin 1000000000000000019884624838656]"
  by (simp add: run_defs round_facts del: fadd.simps fsub.simps fmul.simps)


lemma ex_float_zero:
  "rk45 (\<lambda>y t (a::unit). Inr [Fin 0]) [PyFloat (Fin 1)] [Fin 0, Fin 1] () =
     Inr \<lparr>dtype = Float64, rows = [[Fin 1], [Fin 1]]\<rparr>"
  by (simp add: run_defs round_facts del: fadd.simps fsub.simps fmul.simps)

lemma ex_decreasing:
  "rk45 (\<lambda>y t (a::unit). Inr [Fin 1]) [PyFloat (Fin 1)] [Fin 1, Fin 0] () =
     Inr \<lparr>dtype = Float64, rows = [[Fin 1], [Fin (1 / 18014398509481984)]]\<rparr>"
  by (simp add: run_defs round_facts del: fadd.simps fsub.simps fmul.simps)

lemma ex_stretched:
  "rk45 (\<lambda>y t (a::unit). Inr [Fin 1]) [PyFloat (Fin 1), PyFloat (Fin 2)] [Fin 0, Fin 1] () =
     Inr \<lparr>dtype = Float64,
          rows = [[Fin 1, Fin 2], [Fin 2, Fin (6755399441055743 / 2251799813685248)]]\<rparr>"
  by (simp add: run_defs round_facts del: fadd.simps fsub.simps fmul.simps)

lemma ex_float_one:
  "rk45 (\<lambda>y t (a::unit). Inr [Fin 1]) [PyFloat (Fin 1)] [Fin 0, Fin 1] () =
     Inr \<lparr>dtype = Float64, rows = [[Fin 1], [Fin 2]]\<rparr>"
  by (simp add: run_defs round_facts del: fadd.simps fsub.simps fmul.simps)

lemma ex_estimate_half:
  "rkf4_estimate (\<lambda>y t. [Fin (1 / 2)]) [Fin 1] (Fin 0) (fsub (Fin 1) (Fin 0)) =
     [Fin (6755399441055743 / 4503599627370496)]"
  by (simp add: rkf4_estimate_def vadd_def smul_def Let_def round_facts
      del: fadd.simps fsub.simps fmul.simps)

lemma ex_time_switch:
  "rk45 (\<lambda>y t (a::unit). if t = Fin 0 then Inr [Fin 1] else Inr [Fin 0]) [PyFloat (Fin 0)]
       [Fin 0, Fin 1] () =
     Inr \<lparr>dtype = Float64, rows = [[Fin 0], [Fin (521249956871585 / 4503599627370496)]]\<rparr>"
  by (simp add: run_defs round_facts del: fadd.simps fsub.simps fmul.simps)

section \<open>Properties of the Monte Carlo loop\<close>





section \<open>The claims\<close>

subsection \<open>C1: each entry is the fourth-order estimate from the entry before\<close>

text \<open>
  C1. The claim has every entry after the first equal to the fourth-order estimate advanced
  from the entry before, with the weights 25/216, 1408/2565, 2197/4104 and -1/5. Two calls
  on the grid \<open>[0, 1]\<close> show what \<open>rk45\<close> returns instead.
  With the integer state \<open>(1,)\<close> and the constant derivative 1/2 the fourth-order estimate
  from entry 0 over \<open>h = 1\<close> is 1.4999999999999998 in floats (3/2 in exact arithmetic); the
  call returns an integer array whose entry 1 is 1, where the docstring of \<^verbatim>\<open>rk45\<close>
  promises solution values.
  With the state \<open>(0.0,)\<close> and a derivative that is 1 at \<open>t = 0\<close> and 0 at any other time,
  only \<open>k1\<close> is not zero and entry 1 is the weight \<open>a1\<close> itself: the float of the literal
  \<^verbatim>\<open>1.157407407407407e-01\<close>, which is not the float nearest to the 25/216 of its comment.
\<close>

theorem rk45_fourth_order_runs:
  "rk45 (\<lambda>y t (a::unit). Inr [Fin (1 / 2)]) [PyInt 1] [Fin 0, Fin 1] () =
     Inr \<lparr>dtype = Int64, rows = [[Fin 1], [Fin 1]]\<rparr> \<and>
   rkf4_estimate (\<lambda>y t. [Fin (1 / 2)]) [Fin 1] (Fin 0) (fsub (Fin 1) (Fin 0)) =
     [Fin (6755399441055743 / 4503599627370496)] \<and>
   rk45 (\<lambda>y t (a::unit). if t = Fin 0 then Inr [Fin 1] else Inr [Fin 0]) [PyFloat (Fin 0)]
       [Fin 0, Fin 1] () =
     Inr \<lparr>dtype = Float64, rows = [[Fin 0], [Fin (521249956871585 / 4503599627370496)]]\<rparr> \<and>
   a1 = Fin (521249956871585 / 4503599627370496) \<and>
   rnd (25 / 216) = Fin (8339999309945363 / 72057594037927936)"
  using ex_int_half ex_estimate_half ex_time_switch lit_a1 lit_25_216 by simp

subsection \<open>C2: entry 0 is the initial state\<close>




subsection \<open>C3: a grid of fewer than two points\<close>

text \<open>
  C3, as amended. For a time grid of fewer than two points \<open>rk45\<close> signals no error and
  never calls \<open>f\<close>: the loop has no iteration and the function returns the array it
  allocated, with one row holding \<open>y0\<close> per grid point (no row, or one).
\<close>

theorem rk45_short_grid_returns:
  assumes "length t < 2"
  shows "rk45 f y0 t args = Inr (np_array_rep y0 (length t)) \<and>
    rows (np_array_rep y0 (length t)) = replicate (length t) (np_row y0)"
  using rk45_short_grid [OF assms, where f=f and ?y0.0=y0 and args=args]
  by (simp add: np_array_rep_def)

text \<open>The theorem at a right-hand side that always raises, on the grid \<open>[7]\<close>.\<close>

theorem rk45_short_grid_returns_witness:
  "length [Fin 7] < 2 \<and>
   rk45 (\<lambda>y t (a::unit). Inl OtherError) [PyFloat (Fin 1)] [Fin 7] () =
     Inr \<lparr>dtype = Float64, rows = [[Fin 1]]\<rparr>"
proof -
  have l: "length [Fin 7] < 2" by simp
  from rk45_short_grid_returns [OF l, where f="\<lambda>y t (a::unit). Inl OtherError"
      and ?y0.0="[PyFloat (Fin 1)]" and args="()"]
  show ?thesis by (simp add: np_array_rep_def np_row_def all_ints_def)
qed

text \<open>The claim as first stated fails on the empty grid and on a grid of one point.\<close>

theorem rk45_short_grid_counterexample:
  "rk45 (\<lambda>y t (a::unit). Inr y) [PyFloat (Fin 1)] [] () = Inr \<lparr>dtype = Float64, rows = []\<rparr> \<and>
   rk45 (\<lambda>y t (a::unit). Inr y) [PyFloat (Fin 1)] [Fin 7] () =
     Inr \<lparr>dtype = Float64, rows = [[Fin 1]]\<rparr>"
  by (simp add: rk45_def np_array_rep_def np_row_def all_ints_def)

subsection \<open>C4: a grid that does not increase\<close>

text \<open>
  C4, as amended. \<open>rk45\<close> makes no check on the order of the time grid. For every grid,
  increasing or not, and every \<open>f\<close> that returns a vector \<open>g y t\<close> of the length of \<open>y0\<close>
  for every state of that length, it signals no error and returns a trajectory with one
  entry per grid point. Every entry \<open>i + 1\<close> is the value the step computes from entry
  \<open>i\<close> at \<open>t[i]\<close> with \<open>h = t[i+1] - t[i]\<close>, a step that is used as it is when it is
  zero or negative, cast to the element type of the array; in a float array it is the
  fourth-order estimate advanced from entry \<open>i\<close> over that \<open>h\<close>.
\<close>

theorem rk45_no_grid_check:
  assumes "\<forall>y tt. length y = length y0 \<longrightarrow>
      f y tt args = Inr (g y tt) \<and> length (g y tt) = length y0"
  shows "\<exists>Y. rk45 f y0 t args = Inr Y \<and> length (rows Y) = length t \<and>
    (\<forall>i. i + 1 < length t \<longrightarrow>
       (\<exists>y4. step_value f (dtype Y) (rows Y ! i) (t ! i) (fsub (t ! (i + 1)) (t ! i)) args
                = Inr y4 \<and>
              rows Y ! (i + 1) = cast_to (dtype Y) y4) \<and>
       (dtype Y = Float64 \<longrightarrow>
          rows Y ! (i + 1) =
            rkf4_estimate g (rows Y ! i) (t ! i) (fsub (t ! (i + 1)) (t ! i))))"
  using assms by (rule rk45_well_shaped)

text \<open>
  The theorem on the decreasing grid \<open>[1, 0]\<close>, with the constant derivative 1 and
  \<open>y0 = (1.0,)\<close>: entry 1 is the estimate over \<open>h = -1\<close>.
\<close>

theorem rk45_no_grid_check_witness:
  "rk45 (\<lambda>y t (a::unit). Inr [Fin 1]) [PyFloat (Fin 1)] [Fin 1, Fin 0] () =
     Inr \<lparr>dtype = Float64, rows = [[Fin 1], [Fin (1 / 18014398509481984)]]\<rparr> \<and>
   rkf4_estimate (\<lambda>y t. [Fin 1]) [Fin 1] (Fin 1) (fsub (Fin 0) (Fin 1)) =
     [Fin (1 / 18014398509481984)]"
proof -
  have "\<forall>y tt. length y = length [PyFloat (Fin 1)] \<longrightarrow>
      (\<lambda>y t (a::unit). Inr [Fin 1]) y tt () = Inr ((\<lambda>y t. [Fin 1]) y tt) \<and>
      length ((\<lambda>y t. [Fin 1]) y tt) = length [PyFloat (Fin 1)]"
    by simp
  from rk45_no_grid_check [where f="\<lambda>y t (a::unit). Inr [Fin 1]" and g="\<lambda>y t. [Fin 1]"
      and ?y0.0="[PyFloat (Fin 1)]" and args="()" and t="[Fin 1, Fin 0]", OF this]
  obtain Y where Y: "rk45 (\<lambda>y t (a::unit). Inr [Fin 1]) [PyFloat (Fin 1)] [Fin 1, Fin 0] () = Inr Y"
    and st: "\<forall>i. i + 1 < length [Fin 1, Fin 0] \<longrightarrow>
       (dtype Y = Float64 \<longrightarrow>
          rows Y ! (i + 1) =
            rkf4_estimate (\<lambda>y t. [Fin 1]) (rows Y ! i) ([Fin 1, Fin 0] ! i)
              (fsub ([Fin 1, Fin 0] ! (i + 1)) ([Fin 1, Fin 0] ! i)))"
    by blast
  from Y ex_decreasing
  have e: "Y = \<lparr>dtype = Float64, rows = [[Fin 1], [Fin (1 / 18014398509481984)]]\<rparr>"
    by simp
  from st [rule_format, of 0] e
  have "rkf4_estimate (\<lambda>y t. [Fin 1]) [Fin 1] (Fin 1) (fsub (Fin 0) (Fin 1)) =
     [Fin (1 / 18014398509481984)]"
    by simp
  with ex_decreasing show ?thesis by simp
qed

text \<open>
  The claim as first stated fails on the decreasing grid \<open>[1, 0]\<close>: the step is \<open>h = -1\<close>
  and a trajectory is returned.
\<close>

theorem rk45_decreasing_grid_counterexample:
  "rk45 (\<lambda>y t (a::unit). Inr [Fin 1]) [PyFloat (Fin 1)] [Fin 1, Fin 0] () =
     Inr \<lparr>dtype = Float64, rows = [[Fin 1], [Fin (1 / 18014398509481984)]]\<rparr>"
  by (rule ex_decreasing)

subsection \<open>C5: a derivative vector of another length\<close>

text \<open>
  C5, as amended. Nothing checks the length of the derivative before the stepping. On a
  grid of fewer than two points \<open>rk45\<close> returns the array it allocated, whatever \<open>f\<close>
  returns. On a grid of at least two points:
  an error raised by the stage evaluations of the first step, an error of \<open>f\<close> included, is
  the error of the call;
  when the length of \<open>y0\<close> is not 1 and the first call of \<open>f\<close>, on the initial state at
  \<open>t[0]\<close>, returns a vector whose length is neither that of \<open>y0\<close> nor 1, the first array
  sum after that call raises ValueError, which is the error of the call;
  when \<open>f\<close> always returns vectors of one length \<open>m\<close> that is neither the length of \<open>y0\<close>
  nor 1 the call raises ValueError and returns no trajectory, and for a \<open>y0\<close> of length 1
  the six stages are evaluated first and the error is that of the first row assignment.
  When \<open>f\<close> always returns vectors of length 1 they are broadcast against the state: on
  every grid the call signals no error and returns a trajectory with one entry per grid
  point.
\<close>

theorem rk45_shape_mismatch:
  "(length t < 2 \<longrightarrow> rk45 f y0 t args = Inr (np_array_rep y0 (length t))) \<and>
   (2 \<le> length t \<longrightarrow>
      (\<forall>e. rk45_stages f (np_row y0) (first_row y0 t) (t ! 0) (fsub (t ! 1) (t ! 0)) args
              = Inl e \<longrightarrow>
           rk45 f y0 t args = Inl e) \<and>
      (\<forall>v. f (np_row y0) (t ! 0) args = Inr v \<longrightarrow>
           length v \<noteq> length y0 \<longrightarrow> length v \<noteq> 1 \<longrightarrow> length y0 \<noteq> 1 \<longrightarrow>
           rk45_stages f (np_row y0) (first_row y0 t) (t ! 0) (fsub (t ! 1) (t ! 0)) args
             = Inl ValueError \<and>
           rk45 f y0 t args = Inl ValueError) \<and>
      ((\<forall>y tt. \<exists>v. f y tt args = Inr v \<and> length v = m) \<longrightarrow>
         m \<noteq> length y0 \<longrightarrow> m \<noteq> 1 \<longrightarrow>
         rk45 f y0 t args = Inl ValueError \<and>
         (length y0 = 1 \<longrightarrow>
            (\<exists>ks y4.
               rk45_stages f (np_row y0) (first_row y0 t) (t ! 0) (fsub (t ! 1) (t ! 0)) args
                 = Inr ks \<and>
               order4 (first_row y0 t) ks = Inr y4 \<and>
               setitem_row (np_array_rep y0 (length t)) 1 y4 = Inl ValueError)))) \<and>
   ((\<forall>y tt. \<exists>v. f y tt args = Inr v \<and> length v = 1) \<longrightarrow>
      (\<exists>Y. rk45 f y0 t args = Inr Y \<and> length (rows Y) = length t))"
proof (intro conjI impI allI)
  assume "length t < 2"
  then show "rk45 f y0 t args = Inr (np_array_rep y0 (length t))"
    by (rule rk45_short_grid)
next
  fix e
  assume "2 \<le> length t"
    and "rk45_stages f (np_row y0) (first_row y0 t) (t ! 0) (fsub (t ! 1) (t ! 0)) args = Inl e"
  then show "rk45 f y0 t args = Inl e"
    by (rule rk45_first_stage_error)
next
  fix v
  assume t: "2 \<le> length t" and v: "f (np_row y0) (t ! 0) args = Inr v"
    and l: "length v \<noteq> length y0" "length v \<noteq> 1" "length y0 \<noteq> 1"
  from l have "length v \<noteq> length (first_row y0 t)" "length (first_row y0 t) \<noteq> 1"
    by simp_all
  from first_call_mismatch [where f=f and args=args, OF v this(1) l(2) this(2)]
  show s: "rk45_stages f (np_row y0) (first_row y0 t) (t ! 0) (fsub (t ! 1) (t ! 0)) args
      = Inl ValueError" .
  from t s show "rk45 f y0 t args = Inl ValueError"
    by (rule rk45_first_stage_error)
next
  assume "2 \<le> length t" and "\<forall>y tt. \<exists>v. f y tt args = Inr v \<and> length v = m"
    and "m \<noteq> length y0" and "m \<noteq> 1"
  then show "rk45 f y0 t args = Inl ValueError"
    by (rule rk45_mismatch [where f=f and args=args])
next
  assume "2 \<le> length t" and "\<forall>y tt. \<exists>v. f y tt args = Inr v \<and> length v = m"
    and "m \<noteq> length y0" and "m \<noteq> 1" and "length y0 = 1"
  then show "\<exists>ks y4.
      rk45_stages f (np_row y0) (first_row y0 t) (t ! 0) (fsub (t ! 1) (t ! 0)) args = Inr ks \<and>
      order4 (first_row y0 t) ks = Inr y4 \<and>
      setitem_row (np_array_rep y0 (length t)) 1 y4 = Inl ValueError"
    by (rule unit_state_store_error [where f=f and args=args])
next
  assume "\<forall>y tt. \<exists>v. f y tt args = Inr v \<and> length v = 1"
  then show "\<exists>Y. rk45 f y0 t args = Inr Y \<and> length (rows Y) = length t"
    by (rule rk45_unit [where f=f and args=args])
qed

text \<open>
  The theorem at six calls. A derivative of length 3 for a state of length 2 on a grid
  of one point; an \<open>f\<close> that returns three components for a state of length 1 and raises
  for any other state, with \<open>y0 = (1.0,)\<close>, whose error is the error of the call; an \<open>f\<close>
  that returns three components for a state of length 2 and raises for any other state,
  with \<open>y0 = (1.0, 2.0)\<close>; a derivative always of length 3, for a state of length 2 and
  for a state of length 1; a derivative always of length 1 for a state of length 2.
\<close>

theorem rk45_shape_mismatch_witness:
  "rk45 (\<lambda>y t (a::unit). Inr [Fin 1, Fin 2, Fin 3]) [PyFloat (Fin 1), PyFloat (Fin 2)]
      [Fin 0] () = Inr \<lparr>dtype = Float64, rows = [[Fin 1, Fin 2]]\<rparr> \<and>
   rk45 (\<lambda>y t (a::unit). if length y = 1 then Inr [Fin 1, Fin 2, Fin 3] else Inl OtherError)
      [PyFloat (Fin 1)] [Fin 0, Fin 1] () = Inl OtherError \<and>
   rk45 (\<lambda>y t (a::unit). if length y = 2 then Inr [Fin 1, Fin 2, Fin 3] else Inl OtherError)
      [PyFloat (Fin 1), PyFloat (Fin 2)] [Fin 0, Fin 1] () = Inl ValueError \<and>
   rk45 (\<lambda>y t (a::unit). Inr [Fin 1, Fin 2, Fin 3]) [PyFloat (Fin 1), PyFloat (Fin 2)]
      [Fin 0, Fin 1] () = Inl ValueError \<and>
   rk45 (\<lambda>y t (a::unit). Inr [Fin 1, Fin 2, Fin 3]) [PyFloat (Fin 1)]
      [Fin 0, Fin 1] () = Inl ValueError \<and>
   (\<exists>ks y4.
      rk45_stages (\<lambda>y t (a::unit). Inr [Fin 1, Fin 2, Fin 3]) [Fin 1] [Fin 1] (Fin 0)
        (fsub (Fin 1) (Fin 0)) () = Inr ks \<and>
      order4 [Fin 1] ks = Inr y4 \<and>
      setitem_row \<lparr>dtype = Float64, rows = [[Fin 1], [Fin 1]]\<rparr> 1 y4 = Inl ValueError) \<and>
   (\<exists>Y. rk45 (\<lambda>y t (a::unit). Inr [Fin 1]) [PyFloat (Fin 1), PyFloat (Fin 2)]
           [Fin 0, Fin 1] () = Inr Y \<and>
        length (rows Y) = 2)"
proof -
  let ?f3 = "\<lambda>(y::vec) (t::double) (a::unit). Inr [Fin 1, Fin 2, Fin 3] :: error + vec"
  let ?fa = "\<lambda>(y::vec) (t::double) (a::unit).
      (if length y = 1 then Inr [Fin 1, Fin 2, Fin 3] else Inl OtherError) :: error + vec"
  let ?fb = "\<lambda>(y::vec) (t::double) (a::unit).
      (if length y = 2 then Inr [Fin 1, Fin 2, Fin 3] else Inl OtherError) :: error + vec"
  let ?f1 = "\<lambda>(y::vec) (t::double) (a::unit). Inr [Fin 1] :: error + vec"
  let ?u = "[PyFloat (Fin 1)]"
  let ?w = "[PyFloat (Fin 1), PyFloat (Fin 2)]"
  let ?t = "[Fin 0, Fin 1]"
  have rows: "np_row ?u = [Fin 1]" "first_row ?u ?t = [Fin 1]"
    "np_row ?w = [Fin 1, Fin 2]" "first_row ?w ?t = [Fin 1, Fin 2]"
    "np_array_rep ?u (length ?t) = \<lparr>dtype = Float64, rows = [[Fin 1], [Fin 1]]\<rparr>"
    "np_array_rep ?w (length [Fin 0]) = \<lparr>dtype = Float64, rows = [[Fin 1, Fin 2]]\<rparr>"
    by (simp_all add: np_row_def first_row_def np_array_rep_def all_ints_def)
  have t2: "2 \<le> length ?t" and t1: "length [Fin 0] < 2" by simp_all
  have E3: "\<forall>y tt. \<exists>v. ?f3 y tt () = Inr v \<and> length v = 3" by simp
  have E1: "\<forall>y tt. \<exists>v. ?f1 y tt () = Inr v \<and> length v = 1" by simp
  have sa: "rk45_stages ?fa (np_row ?u) (first_row ?u ?t) (?t ! 0) (fsub (?t ! 1) (?t ! 0)) ()
      = Inl OtherError"
    by (simp add: rows rk45_stages_def stage_def smul_def np_add_def
        del: fsub.simps fmul.simps fadd.simps)
  have vb: "?fb (np_row ?w) (?t ! 0) () = Inr [Fin 1, Fin 2, Fin 3]"
    by (simp add: rows)
  have lb: "length [Fin 1, Fin 2, Fin 3] \<noteq> length ?w" "length [Fin 1, Fin 2, Fin 3] \<noteq> 1"
    "length ?w \<noteq> 1" by simp_all
  have m2: "3 \<noteq> length ?w" "(3::nat) \<noteq> 1" and m1: "3 \<noteq> length ?u" and u1: "length ?u = 1"
    by simp_all
  note A = rk45_shape_mismatch [where f="?f3" and ?y0.0="?w" and t="[Fin 0]" and args="()"]
  note B = rk45_shape_mismatch [where f="?fa" and ?y0.0="?u" and t="?t" and args="()"]
  note C = rk45_shape_mismatch [where f="?fb" and ?y0.0="?w" and t="?t" and args="()"]
  note D = rk45_shape_mismatch [where f="?f3" and ?y0.0="?w" and t="?t" and args="()"
      and m=3]
  note E = rk45_shape_mismatch [where f="?f3" and ?y0.0="?u" and t="?t" and args="()"
      and m=3]
  note F = rk45_shape_mismatch [where f="?f1" and ?y0.0="?w" and t="?t" and args="()"]
  from A t1 have a: "rk45 ?f3 ?w [Fin 0] () = Inr (np_array_rep ?w (length [Fin 0]))"
    by blast
  from B t2 sa have b: "rk45 ?fa ?u ?t () = Inl OtherError" by blast
  from C t2 vb lb have c: "rk45 ?fb ?w ?t () = Inl ValueError" by blast
  from D t2 E3 m2 have d: "rk45 ?f3 ?w ?t () = Inl ValueError" by blast
  from E t2 E3 m1 m2(2) u1 have e: "rk45 ?f3 ?u ?t () = Inl ValueError \<and>
     (\<exists>ks y4.
        rk45_stages ?f3 (np_row ?u) (first_row ?u ?t) (?t ! 0) (fsub (?t ! 1) (?t ! 0)) ()
          = Inr ks \<and>
        order4 (first_row ?u ?t) ks = Inr y4 \<and>
        setitem_row (np_array_rep ?u (length ?t)) 1 y4 = Inl ValueError)"
    by blast
  from F E1 have "\<exists>Y. rk45 ?f1 ?w ?t () = Inr Y \<and> length (rows Y) = length ?t"
    by blast
  then have f: "\<exists>Y. rk45 ?f1 ?w ?t () = Inr Y \<and> length (rows Y) = 2"
    by (simp add: eval_nat_numeral)
  from a b c d e f show ?thesis
    by (simp add: np_row_def first_row_def np_array_rep_def all_ints_def del: fsub.simps)
qed

text \<open>
  The claim as first stated fails for the state \<open>(1.0, 2.0)\<close> and a derivative vector of
  length 1: the lengths disagree and a trajectory is returned.
\<close>

theorem rk45_length_one_derivative_counterexample:
  "rk45 (\<lambda>y t (a::unit). Inr [Fin 1]) [PyFloat (Fin 1), PyFloat (Fin 2)] [Fin 0, Fin 1] () =
     Inr \<lparr>dtype = Float64,
          rows = [[Fin 1, Fin 2], [Fin 2, Fin (6755399441055743 / 2251799813685248)]]\<rparr>"
  by (rule ex_stretched)

subsection \<open>C6: a sample count below one\<close>




subsection \<open>C7: the fifth-order combination is not used\<close>

text \<open>
  C7. For every input whose right-hand side returns vectors of the length of \<open>y0\<close>
  whenever it returns, \<open>rk45\<close> and the variant with the line \<^verbatim>\<open>y5 = ...\<close> removed give the
  same result, trajectory or error: the output does not depend on the \<open>b\<close> coefficients.
  Both loops run once per grid interval, whatever the two estimates are.
\<close>

theorem rk45_ignores_fifth_order:
  assumes "\<forall>y tt v. length y = length y0 \<longrightarrow> f y tt args = Inr v \<longrightarrow> length v = length y0"
  shows "rk45 f y0 t args = rk45_no_y5 f y0 t args"
  unfolding rk45_def rk45_no_y5_def Let_def
  by (rule loop_no_y5_eq [where f=f and args=args, OF assms]) (simp add: np_array_rep_def)

text \<open>
  The theorem at the constant derivative 1, \<open>y0 = (1.0,)\<close>, \<open>t = [0, 1]\<close>, where both
  return a trajectory.
\<close>

theorem rk45_ignores_fifth_order_witness:
  "rk45 (\<lambda>y t (a::unit). Inr [Fin 1]) [PyFloat (Fin 1)] [Fin 0, Fin 1] () =
     rk45_no_y5 (\<lambda>y t (a::unit). Inr [Fin 1]) [PyFloat (Fin 1)] [Fin 0, Fin 1] () \<and>
   rk45_no_y5 (\<lambda>y t (a::unit). Inr [Fin 1]) [PyFloat (Fin 1)] [Fin 0, Fin 1] () =
     Inr \<lparr>dtype = Float64, rows = [[Fin 1], [Fin 2]]\<rparr>"
proof -
  have "\<forall>y tt v. length y = length [PyFloat (Fin 1)] \<longrightarrow>
      (\<lambda>y t (a::unit). Inr [Fin 1]) y tt () = Inr v \<longrightarrow> length v = length [PyFloat (Fin 1)]"
    by auto
  from rk45_ignores_fifth_order [where f="\<lambda>y t (a::unit). Inr [Fin 1]"
      and ?y0.0="[PyFloat (Fin 1)]" and args="()" and t="[Fin 0, Fin 1]", OF this] ex_float_one
  show ?thesis by simp
qed

subsection \<open>C8: the catalysis right-hand side\<close>


subsection \<open>C9: the size of the ensemble\<close>



subsection \<open>C10: an integer initial state\<close>

text \<open>
  C10, as amended. The trajectory array takes its element type from \<open>y0\<close>. For every call
  that returns, each step computes \<open>y4 = y[i] + a1 k1 + a3 k3 + a4 k4 + a5 k5\<close> in floats.
  When every component of \<open>y0\<close> is an integer the array is an integer array and the step
  stores, with no error, every component of \<open>y4\<close> cast to a 64-bit integer: truncated
  toward zero when the truncated value lies between \<open>-2^63\<close> and \<open>2^63 - 1\<close>, and \<open>-2^63\<close>
  otherwise. When \<open>y0\<close> has a float component the array is a float array and the step
  stores \<open>y4\<close> itself. So an integer \<open>y0\<close> can give a trajectory that differs from the
  float recurrence: for \<open>y0 = (1,)\<close>, derivative 1/2 and \<open>t = [0, 1]\<close> the step value is
  not 1 and the entry stored is 1.
\<close>

theorem rk45_integer_state_cast:
  assumes Y: "rk45 f y0 t args = Inr Y" and i: "i + 1 < length t"
  shows "(\<exists>y4 w. step_value f (dtype Y) (rows Y ! i) (t ! i) (fsub (t ! (i + 1)) (t ! i)) args
              = Inr y4 \<and>
            broadcast_to (length y0) y4 = Inr w \<and>
            (if all_ints y0
             then dtype Y = Int64 \<and> rows Y ! (i + 1) = map int64_cast w \<and>
                  (\<forall>j<length w. \<forall>x. w ! j = Fin x \<longrightarrow>
                     rows Y ! (i + 1) ! j =
                       (if - 9223372036854775808 \<le> trunc_zero x \<and>
                           trunc_zero x < 9223372036854775808
                        then Fin (real_of_int (trunc_zero x))
                        else Fin (- 9223372036854775808)))
             else dtype Y = Float64 \<and> rows Y ! (i + 1) = w)) \<and>
         (\<exists>y4. all_ints [PyInt 1] \<and>
            rk45 (\<lambda>y t (a::unit). Inr [Fin (1 / 2)]) [PyInt 1] [Fin 0, Fin 1] () =
              Inr \<lparr>dtype = Int64, rows = [[Fin 1], [Fin 1]]\<rparr> \<and>
            step_value (\<lambda>y t (a::unit). Inr [Fin (1 / 2)]) Int64 [Fin 1] (Fin 0)
              (fsub (Fin 1) (Fin 0)) () = Inr y4 \<and>
            y4 \<noteq> [Fin 1])"
proof -
  let ?dt = "dtype (np_array_rep y0 (length t))"
  from rk45_Inr [OF Y] i obtain y4 where d: "dtype Y = ?dt"
    and sv: "step_value f (dtype Y) (rows Y ! i) (t ! i) (fsub (t ! (i + 1)) (t ! i)) args
               = Inr y4"
    and rs: "row_store ?dt (length y0) y4 = Inr (rows Y ! (i + 1))"
    by blast
  from rs obtain w where w: "broadcast_to (length y0) y4 = Inr w"
    and c: "rows Y ! (i + 1) = cast_to ?dt w"
    by (auto simp: row_store_def bind_err_Inr_iff)
  from i have "length t \<noteq> 0" by auto
  then have dt: "?dt = (if all_ints y0 then Int64 else Float64)"
    by (simp add: np_array_rep_def)
  have "if all_ints y0
        then dtype Y = Int64 \<and> rows Y ! (i + 1) = map int64_cast w \<and>
             (\<forall>j<length w. \<forall>x. w ! j = Fin x \<longrightarrow>
                rows Y ! (i + 1) ! j =
                  (if - 9223372036854775808 \<le> trunc_zero x \<and>
                      trunc_zero x < 9223372036854775808
                   then Fin (real_of_int (trunc_zero x))
                   else Fin (- 9223372036854775808)))
        else dtype Y = Float64 \<and> rows Y ! (i + 1) = w"
    using d c dt by simp
  with sv w have "\<exists>y4 w. step_value f (dtype Y) (rows Y ! i) (t ! i)
              (fsub (t ! (i + 1)) (t ! i)) args = Inr y4 \<and>
            broadcast_to (length y0) y4 = Inr w \<and>
            (if all_ints y0
             then dtype Y = Int64 \<and> rows Y ! (i + 1) = map int64_cast w \<and>
                  (\<forall>j<length w. \<forall>x. w ! j = Fin x \<longrightarrow>
                     rows Y ! (i + 1) ! j =
                       (if - 9223372036854775808 \<le> trunc_zero x \<and>
                           trunc_zero x < 9223372036854775808
                        then Fin (real_of_int (trunc_zero x))
                        else Fin (- 9223372036854775808)))
             else dtype Y = Float64 \<and> rows Y ! (i + 1) = w)"
    by blast
  moreover have "all_ints [PyInt 1]" by (simp add: all_ints_def)
  moreover note ex_int_half ex_int_half_step
  ultimately show ?thesis by simp
qed

text \<open>
  The theorem at \<open>y0 = (2,)\<close>, derivative 3/2 and \<open>t = [0, 1]\<close>: the step value is 7/2 and
  the entry stored is 3.
\<close>

theorem rk45_integer_state_cast_witness:
  "rk45 (\<lambda>y t (a::unit). Inr [Fin (3 / 2)]) [PyInt 2] [Fin 0, Fin 1] () =
     Inr \<lparr>dtype = Int64, rows = [[Fin 2], [Fin 3]]\<rparr> \<and>
   0 + 1 < length [Fin 0, Fin 1] \<and>
   (\<exists>y4 w. step_value (\<lambda>y t (a::unit). Inr [Fin (3 / 2)]) Int64 [Fin 2] (Fin 0)
        (fsub (Fin 1) (Fin 0)) () = Inr y4 \<and>
      broadcast_to 1 y4 = Inr w \<and> [Fin 3] = map int64_cast w)"
proof -
  have i: "0 + 1 < length [Fin 0, Fin 1]" by simp
  have a: "all_ints [PyInt 2]" by (simp add: all_ints_def)
  from rk45_integer_state_cast [OF ex_int_three_halves i] a
  have "\<exists>y4 w. step_value (\<lambda>y t (a::unit). Inr [Fin (3 / 2)]) Int64 [Fin 2] (Fin 0)
        (fsub (Fin 1) (Fin 0)) () = Inr y4 \<and>
      broadcast_to 1 y4 = Inr w \<and> [Fin 3] = map int64_cast w"
    by (auto simp del: fsub.simps int64_cast.simps)
  with ex_int_three_halves i show ?thesis by blast
qed

text \<open>
  The claim as first stated fails for \<open>y0 = (1,)\<close>, the constant derivative \<open>1e30\<close> and
  \<open>t = [0, 1]\<close>: the step value is a float near \<open>10^30\<close>, whose truncation toward zero is
  itself, and the entry stored is \<open>-2^63\<close>.
\<close>

theorem rk45_integer_overflow_counterexample:
  "rk45 (\<lambda>y t (a::unit). Inr [rnd (10 ^ 30)]) [PyInt 1] [Fin 0, Fin 1] () =
     Inr \<lparr>dtype = Int64, rows = [[Fin 1], [Fin (- 9223372036854775808)]]\<rparr> \<and>
   step_value (\<lambda>y t (a::unit). Inr [rnd (10 ^ 30)]) Int64 [Fin 1] (Fin 0)
     (fsub (Fin 1) (Fin 0)) () = Inr [Fin 1000000000000000019884624838656] \<and>
   trunc_zero 1000000000000000019884624838656 = 1000000000000000019884624838656"
  using ex_int_huge ex_int_huge_step by (simp add: trunc_zero_def)

end
